theory Spec2Isabelle
  imports Complex_Main "HOL-Library.Word"
begin

unbundle bit_operations_syntax

section \<open>Bytes, strings and errors\<close>

text \<open>
  The library works on \<^verbatim>\<open>std::vector<uint8_t>\<close>, \<^verbatim>\<open>secure_vector<uint8_t>\<close> and
  \<^verbatim>\<open>std::string\<close>; all three are sequences of octets and are modelled as lists of
  8-bit words.  A C++ string literal is written as an Isabelle string and turned into
  octets by \<open>str\<close>.
\<close>

type_synonym byte = "8 word"
type_synonym bytes = "byte list"

definition str :: "string \<Rightarrow> bytes" where
  "str s = map (\<lambda>c. of_nat (of_char c)) s"

text \<open>
  The exceptions the code throws, by C++ class: \<^verbatim>\<open>std::out_of_range\<close>,
  \<^verbatim>\<open>std::length_error\<close>, \<^verbatim>\<open>std::runtime_error\<close> (with its message) and
  \<^verbatim>\<open>std::logic_error\<close>.  \<open>TooManyAttempts n\<close> is the \<^verbatim>\<open>std::runtime_error\<close> of
  \<^verbatim>\<open>KeyManager::unlock\<close> whose message asks to wait \<open>n\<close> seconds.  Two ways of leaving a
  function are not exceptions and no handler catches them: \<open>Abort\<close> for the end of the
  program by \<^verbatim>\<open>abort()\<close> or \<^verbatim>\<open>std::terminate\<close>, and \<open>Undefined\<close> where the C++ standard
  leaves the behaviour undefined.
  A function that can throw returns \<open>error + 'a\<close>.
\<close>

datatype error =
    OutOfRange
  | LengthError
  | RuntimeError string
  | LogicError string
  | TooManyAttempts int
  | Abort
  | Undefined

definition is_exception :: "error \<Rightarrow> bool" where
  "is_exception e \<longleftrightarrow> e \<noteq> Abort \<and> e \<noteq> Undefined"

definition bind :: "error + 'a \<Rightarrow> ('a \<Rightarrow> error + 'b) \<Rightarrow> error + 'b" where
  "bind r f = (case r of Inl e \<Rightarrow> Inl e | Inr x \<Rightarrow> f x)"

section \<open>Binary codec\<close>

subsection \<open>Serializer (src/utils/serializer.cpp)\<close>

record Serializer =
  s_data :: bytes

definition Serializer_new :: Serializer where
  "Serializer_new = \<lparr>s_data = []\<rparr>"

definition MAX_SERIALIZED_SIZE :: nat where
  "MAX_SERIALIZED_SIZE = 256 * 1024"

text \<open>The four octets \<^verbatim>\<open>(value >> 24) & 0xFF\<close>, ..., \<^verbatim>\<open>value & 0xFF\<close>.\<close>

definition be32 :: "32 word \<Rightarrow> bytes" where
  "be32 v = [ucast (drop_bit 24 v AND 0xFF), ucast (drop_bit 16 v AND 0xFF),
             ucast (drop_bit 8 v AND 0xFF), ucast (v AND 0xFF)]"

text \<open>\<^verbatim>\<open>writeBE32(value)\<close> with the default \<^verbatim>\<open>at = -1\<close>: append.\<close>

definition writeBE32 :: "32 word \<Rightarrow> Serializer \<Rightarrow> error + Serializer" where
  "writeBE32 v s =
     (if length (s_data s) + 4 > MAX_SERIALIZED_SIZE then Inl LengthError
      else Inr (s\<lparr>s_data := s_data s @ be32 v\<rparr>))"

text \<open>\<^verbatim>\<open>writeBE32(value, at)\<close> with an explicit offset: overwrite in place.\<close>

definition writeBE32_at :: "32 word \<Rightarrow> nat \<Rightarrow> Serializer \<Rightarrow> error + Serializer" where
  "writeBE32_at v pos s =
     (if pos + 4 > length (s_data s) then Inl OutOfRange
      else Inr (s\<lparr>s_data := take pos (s_data s) @ be32 v @ drop (pos + 4) (s_data s)\<rparr>))"

definition writeByte :: "byte \<Rightarrow> Serializer \<Rightarrow> error + Serializer" where
  "writeByte b s =
     (if length (s_data s) + 1 > MAX_SERIALIZED_SIZE then Inl LengthError
      else Inr (s\<lparr>s_data := s_data s @ [b]\<rparr>))"

text \<open>
  \<^verbatim>\<open>writeBlob\<close>: the size check counts the four length octets; the length is cast to
  \<^verbatim>\<open>uint32_t\<close> (\<open>of_nat\<close> into \<open>32 word\<close>).
\<close>

definition writeBlob :: "bytes \<Rightarrow> Serializer \<Rightarrow> error + Serializer" where
  "writeBlob blob s =
     (if length (s_data s) + 4 + length blob > MAX_SERIALIZED_SIZE then Inl LengthError
      else bind (writeBE32 (of_nat (length blob)) s)
             (\<lambda>s'. Inr (s'\<lparr>s_data := s_data s' @ blob\<rparr>)))"

definition writeString :: "bytes \<Rightarrow> Serializer \<Rightarrow> error + Serializer" where
  "writeString st s = writeBlob st s"

definition finalize :: "Serializer \<Rightarrow> error + Serializer" where
  "finalize s =
     (if length (s_data s) < 4 then Inl (RuntimeError ''Serializer: not enough data to finalize'')
      else writeBE32_at (of_nat (length (s_data s) - 4)) 0 s)"

text \<open>\<^verbatim>\<open>Serializer::data()\<close> copies the buffer out.\<close>

definition data :: "Serializer \<Rightarrow> bytes" where
  "data s = s_data s"

subsection \<open>Deserializer (src/utils/deserializer.cpp)\<close>

text \<open>
  The C++ object holds a pointer, a length and an offset; the model holds the octets the
  pointer designates and the offset, and \<open>m_length\<close> is the number of octets.
  Offsets and lengths are \<^verbatim>\<open>size_t\<close>, taken as 64 bits wide: the sum of an offset and a
  32-bit length does not wrap, so they are natural numbers here.
\<close>

record Deserializer =
  m_data :: bytes
  m_offset :: nat

definition Deserializer_new :: "bytes \<Rightarrow> Deserializer" where
  "Deserializer_new bs = \<lparr>m_data = bs, m_offset = 0\<rparr>"

definition m_length :: "Deserializer \<Rightarrow> nat" where
  "m_length d = length (m_data d)"

definition remaining :: "Deserializer \<Rightarrow> nat" where
  "remaining d = m_length d - m_offset d"

definition from_be32 :: "byte \<Rightarrow> byte \<Rightarrow> byte \<Rightarrow> byte \<Rightarrow> 32 word" where
  "from_be32 b0 b1 b2 b3 =
     push_bit 24 (ucast b0) OR push_bit 16 (ucast b1) OR push_bit 8 (ucast b2) OR ucast b3"

definition readBE32 :: "Deserializer \<Rightarrow> error + (32 word \<times> Deserializer)" where
  "readBE32 d =
     (if m_offset d + 4 > m_length d then Inl OutOfRange
      else Inr (from_be32 (m_data d ! m_offset d) (m_data d ! (m_offset d + 1))
                          (m_data d ! (m_offset d + 2)) (m_data d ! (m_offset d + 3)),
                d\<lparr>m_offset := m_offset d + 4\<rparr>))"

definition readByte :: "Deserializer \<Rightarrow> error + (byte \<times> Deserializer)" where
  "readByte d =
     (if m_offset d + 1 > m_length d then Inl OutOfRange
      else Inr (m_data d ! m_offset d, d\<lparr>m_offset := m_offset d + 1\<rparr>))"

definition readBlob :: "Deserializer \<Rightarrow> error + (bytes \<times> Deserializer)" where
  "readBlob d =
     bind (readBE32 d) (\<lambda>(len, d').
       if m_offset d' + unat len > m_length d' then Inl OutOfRange
       else Inr (take (unat len) (drop (m_offset d') (m_data d')),
                 d'\<lparr>m_offset := m_offset d' + unat len\<rparr>))"

definition readString :: "Deserializer \<Rightarrow> error + (bytes \<times> Deserializer)" where
  "readString d = readBlob d"

definition discardBlob :: "Deserializer \<Rightarrow> error + Deserializer" where
  "discardBlob d =
     bind (readBE32 d) (\<lambda>(len, d').
       if m_offset d' + unat len > m_length d' then Inl OutOfRange
       else Inr (d'\<lparr>m_offset := m_offset d' + unat len\<rparr>))"


text \<open>
  \<^verbatim>\<open>readMPInt\<close> drops one leading zero octet when the octet after it has its top bit
  set; \<^verbatim>\<open>writeMPInt\<close> puts a zero octet in front when the first octet has its top bit
  set.  \<^verbatim>\<open>readBlobSecure\<close> and \<^verbatim>\<open>readMPIntSecure\<close> differ from \<^verbatim>\<open>readBlob\<close> and
  \<^verbatim>\<open>readMPInt\<close> only in the allocator of the result.
\<close>

definition strip_mpint :: "bytes \<Rightarrow> bytes" where
  "strip_mpint result =
     (if length result > 1 \<and> result ! 0 = 0 \<and> (result ! 1 AND 0x80) \<noteq> 0
      then tl result else result)"

definition readMPInt :: "Deserializer \<Rightarrow> error + (bytes \<times> Deserializer)" where
  "readMPInt d =
     bind (readBE32 d) (\<lambda>(len, d').
       if m_offset d' + unat len > m_length d' then Inl OutOfRange
       else Inr (strip_mpint (take (unat len) (drop (m_offset d') (m_data d'))),
                 d'\<lparr>m_offset := m_offset d' + unat len\<rparr>))"

definition writeMPInt :: "bytes \<Rightarrow> Serializer \<Rightarrow> error + Serializer" where
  "writeMPInt mpint s =
     (if mpint = [] then writeBE32 0 s
      else
        let prepend_zero = ((mpint ! 0) AND 0x80) \<noteq> 0;
            len = length mpint + (if prepend_zero then 1 else 0)
        in if length (s_data s) + 4 + len > MAX_SERIALIZED_SIZE then Inl LengthError
           else bind (writeBE32 (of_nat len) s)
                  (\<lambda>s'. Inr (s'\<lparr>s_data := s_data s' @ (if prepend_zero then [0] else []) @ mpint\<rparr>)))"

text \<open>\<^verbatim>\<open>Deserializer::sliceSecure(start, end)\<close>.\<close>

definition sliceSecure :: "nat \<Rightarrow> nat \<Rightarrow> Deserializer \<Rightarrow> error + bytes" where
  "sliceSecure start fin d =
     (if start > fin \<or> fin > m_length d then Inl OutOfRange
      else Inr (take (fin - start) (drop start (m_data d))))"

text \<open>
  The round trip of the specification: encode a blob into an empty serializer, read it
  back from a deserializer over the result.
\<close>

definition encode_blob :: "bytes \<Rightarrow> error + bytes" where
  "encode_blob v = bind (writeBlob v Serializer_new) (\<lambda>s. Inr (data s))"

definition decode_blob :: "bytes \<Rightarrow> error + bytes" where
  "decode_blob bs = bind (readBlob (Deserializer_new bs)) (\<lambda>(v, d). Inr v)"

section \<open>Secure allocator (include/libssha/utils/secure\_vector.h)\<close>

text \<open>
  The heap the allocator works on: the octet stored at each address, the base addresses
  of the live blocks, and the address ranges pinned with \<^verbatim>\<open>mlock\<close>.  Address \<open>0\<close> is the
  null pointer.  \<open>sz\<close> is \<^verbatim>\<open>sizeof(T)\<close>.
\<close>

record Heap =
  h_mem :: "nat \<Rightarrow> byte"
  h_live :: "nat set"
  h_locked :: "(nat \<times> nat) set"

definition memset :: "nat \<Rightarrow> byte \<Rightarrow> nat \<Rightarrow> (nat \<Rightarrow> byte) \<Rightarrow> (nat \<Rightarrow> byte)" where
  "memset p c len m = (\<lambda>a. if p \<le> a \<and> a < p + len then c else m a)"

text \<open>
  \<^verbatim>\<open>deallocate(p, n)\<close>: when \<open>p\<close> is not null, \<^verbatim>\<open>memset(p, 0x42, n * sizeof(T))\<close> and
  \<^verbatim>\<open>munlock\<close>; then \<^verbatim>\<open>::operator delete(p)\<close>.
\<close>

definition deallocate :: "nat \<Rightarrow> nat \<Rightarrow> nat \<Rightarrow> Heap \<Rightarrow> Heap" where
  "deallocate sz p n h =
     (let h1 = (if p \<noteq> 0
                then h\<lparr>h_mem := memset p 0x42 (n * sz) (h_mem h),
                       h_locked := h_locked h - {(p, n * sz)}\<rparr>
                else h)
      in h1\<lparr>h_live := h_live h1 - {p}\<rparr>)"

section \<open>Destination constraints (src/extensions/openssh-restrict-destination.cpp)\<close>

record OpenSSHHopKey =
  key :: bytes
  key_is_ca :: bool

record OpenSSHHopDescriptor =
  hop_user :: bytes
  hop_hostname :: bytes
  hop_keys :: "OpenSSHHopKey list"

record OpenSSHSDestinationConstraint =
  m_from_hop :: OpenSSHHopDescriptor
  m_to_hop :: OpenSSHHopDescriptor

record MatchInfo =
  mi_from :: bytes
  mi_to :: bytes
  mi_user :: bytes

text \<open>
  The loop of \<^verbatim>\<open>OpenSSHHopDescriptor::matchesKey\<close> over \<^verbatim>\<open>m_keys\<close>: an entry with an
  empty key ends the search with \<^verbatim>\<open>false\<close>; a CA entry and an entry with another key
  are skipped; the first remaining entry answers \<^verbatim>\<open>true\<close>.
\<close>

fun matchesKey_loop :: "OpenSSHHopKey list \<Rightarrow> bytes \<Rightarrow> bool" where
  "matchesKey_loop [] blob = False"
| "matchesKey_loop (k # ks) blob =
     (if key k = [] then False
      else if key_is_ca k then matchesKey_loop ks blob
      else if key k \<noteq> blob then matchesKey_loop ks blob
      else True)"

definition matchesKey :: "OpenSSHHopDescriptor \<Rightarrow> bytes \<Rightarrow> bool" where
  "matchesKey hop blob = matchesKey_loop (hop_keys hop) blob"

text \<open>
  The hop match as the specification words it: at least one entry that is not a CA key
  equals the blob.
\<close>

definition matchesKey_spec :: "OpenSSHHopDescriptor \<Rightarrow> bytes \<Rightarrow> bool" where
  "matchesKey_spec hop blob \<longleftrightarrow> (\<exists>k \<in> set (hop_keys hop). \<not> key_is_ca k \<and> key k = blob)"

text \<open>
  \<^verbatim>\<open>OpenSSHSDestinationConstraint::matches\<close>.  The optional \<^verbatim>\<open>MatchInfo\<close> reference is
  an output: the function returns its truth value and the match information as it stands
  afterwards (\<open>None\<close> for \<^verbatim>\<open>std::nullopt\<close>).
\<close>

definition matches ::
  "OpenSSHSDestinationConstraint \<Rightarrow> bytes \<Rightarrow> bytes \<Rightarrow> bytes \<Rightarrow> MatchInfo option
     \<Rightarrow> bool \<times> MatchInfo option" where
  "matches c from_key to_key user mi =
     (if from_key = [] \<and> (hop_hostname (m_from_hop c) \<noteq> [] \<or> hop_keys (m_from_hop c) \<noteq> [])
        then (False, mi)
      else if from_key \<noteq> [] \<and> \<not> matchesKey (m_from_hop c) from_key then (False, mi)
      else if to_key \<noteq> [] \<and> matchesKey (m_to_hop c) to_key = False then (False, mi)
      else if hop_user (m_to_hop c) \<noteq> [] \<and> user \<noteq> [] \<and> hop_user (m_to_hop c) \<noteq> user
        then (False, mi)
      else (True, map_option (\<lambda>_. \<lparr>mi_from = hop_hostname (m_from_hop c),
                                     mi_to = hop_hostname (m_to_hop c),
                                     mi_user = user\<rparr>) mi))"


section \<open>Keys\<close>

subsection \<open>The cryptographic library\<close>

text \<open>
  Botan is outside the repository.  Its operations are parameters of the model: for each
  constructor of a Botan key object, whether Botan accepts the material (it throws
  otherwise); signing, verification, PKCS\#8 protection of a private key under a
  passphrase, the SHA-256 fingerprint and the Argon2 password hash as functions.
  An exception of Botan is a \<^verbatim>\<open>std::exception\<close>; the model writes it
  \<open>RuntimeError ''Botan''\<close>.
\<close>

record PubKeyBase =
  pk_blob :: bytes
  pk_type :: bytes

record Botan =
  Ed25519_PublicKey :: "bytes \<Rightarrow> bool"
  Ed448_PublicKey :: "bytes \<Rightarrow> bool"
  RSA_PublicKey :: "bytes \<Rightarrow> bytes \<Rightarrow> bool"
  EC_AffinePoint :: "string \<Rightarrow> bytes \<Rightarrow> bool"
  Ed25519_PrivateKey :: "bytes \<Rightarrow> bool"
  Ed448_PrivateKey :: "bytes \<Rightarrow> bool"
  RSA_PrivateKey :: "bytes \<Rightarrow> bytes \<Rightarrow> bytes \<Rightarrow> bytes \<Rightarrow> bytes \<Rightarrow> bool"
  EC_Scalar :: "string \<Rightarrow> bytes \<Rightarrow> bool"
  verify_message :: "PubKeyBase \<Rightarrow> bytes \<Rightarrow> bytes \<Rightarrow> error + bool"
  sign_message :: "bytes \<Rightarrow> bytes \<Rightarrow> bytes \<Rightarrow> 32 word \<Rightarrow> error + bytes"
  PKCS8_BER_encode :: "bytes \<Rightarrow> bytes \<Rightarrow> bytes"
  PKCS8_load_key :: "bytes \<Rightarrow> bytes \<Rightarrow> error + bytes option"
  sha256_fingerprint :: "bytes \<Rightarrow> bytes"
  argon2_generate_pwhash :: "bytes \<Rightarrow> bytes"
  argon2_check_pwhash :: "bytes \<Rightarrow> bytes \<Rightarrow> bool"

definition botan_check :: "bool \<Rightarrow> error + unit" where
  "botan_check ok = (if ok then Inr () else Inl (RuntimeError ''Botan''))"

subsection \<open>Public keys (src/providers/botan/*-pub.cpp)\<close>

definition ED25519Pub :: "Botan \<Rightarrow> bytes \<Rightarrow> error + PubKeyBase" where
  "ED25519Pub bt blob =
     bind (readString (Deserializer_new blob)) (\<lambda>(ty, d).
       if ty \<noteq> str ''ssh-ed25519'' then Inl (RuntimeError ''ED25519Pub: invalid key type'')
       else bind (readMPInt d) (\<lambda>(pubkey_blob, d').
              bind (botan_check (Ed25519_PublicKey bt pubkey_blob)) (\<lambda>_.
                Inr \<lparr>pk_blob = blob, pk_type = ty\<rparr>)))"

definition ED448Pub :: "Botan \<Rightarrow> bytes \<Rightarrow> error + PubKeyBase" where
  "ED448Pub bt blob =
     bind (readString (Deserializer_new blob)) (\<lambda>(ty, d).
       if ty \<noteq> str ''ssh-ed448'' then Inl (RuntimeError ''ED448Pub: invalid key type'')
       else bind (readMPInt d) (\<lambda>(pubkey_blob, d').
              bind (botan_check (Ed448_PublicKey bt pubkey_blob)) (\<lambda>_.
                Inr \<lparr>pk_blob = blob, pk_type = ty\<rparr>)))"

definition RSAPub :: "Botan \<Rightarrow> bytes \<Rightarrow> error + PubKeyBase" where
  "RSAPub bt blob =
     bind (readString (Deserializer_new blob)) (\<lambda>(ty, d).
       bind (readMPInt d) (\<lambda>(e, d1).
         bind (readMPInt d1) (\<lambda>(n, d2).
           bind (botan_check (RSA_PublicKey bt n e)) (\<lambda>_.
             Inr \<lparr>pk_blob = blob, pk_type = ty\<rparr>))))"

text \<open>The Botan curve for an SSH curve name; \<open>None\<close> where the constructors throw.\<close>

definition botan_curve_name :: "bytes \<Rightarrow> string option" where
  "botan_curve_name curve_name =
     (if curve_name = str ''nistp256'' then Some ''secp256r1''
      else if curve_name = str ''nistp384'' then Some ''secp384r1''
      else if curve_name = str ''nistp521'' then Some ''secp521r1''
      else None)"

definition ECDSAPub :: "Botan \<Rightarrow> bytes \<Rightarrow> error + PubKeyBase" where
  "ECDSAPub bt blob =
     bind (readString (Deserializer_new blob)) (\<lambda>(ty, d).
       bind (readString d) (\<lambda>(curve_name, d1).
         bind (readMPInt d1) (\<lambda>(pub_data, d2).
           case botan_curve_name curve_name of
             None \<Rightarrow> Inl (RuntimeError ''ECDSAPub: unknown curve name'')
           | Some domain \<Rightarrow>
               bind (botan_check (EC_AffinePoint bt domain pub_data)) (\<lambda>_.
                 Inr \<lparr>pk_blob = blob, pk_type = ty\<rparr>))))"

subsection \<open>Private keys (include/libssha/key/key.h, src/providers/botan/*-key.cpp)\<close>

text \<open>
  \<^verbatim>\<open>KeyBase\<close> with the members of the Botan-backed subclasses: the type name the key was
  registered under, the private key object (\<open>None\<close> once \<^verbatim>\<open>lock\<close> has reset it) and
  the protected copy kept by \<^verbatim>\<open>BotanLock\<close>.  \<open>m_added_time\<close> is a reading of
  \<^verbatim>\<open>std::chrono::steady_clock\<close> in nanoseconds.
\<close>

record KeyBase =
  m_comment :: bytes
  m_pubkey :: "PubKeyBase option"
  m_added_time :: int
  m_lifetime_seconds :: "32 word"
  m_dest_constraints :: "OpenSSHSDestinationConstraint list"
  m_confirm_required :: bool
  m_type_name :: bytes
  m_priv_key :: "bytes option"
  m_locked_data :: bytes

definition KeyBase_new :: "bytes \<Rightarrow> bytes \<Rightarrow> bytes \<Rightarrow> PubKeyBase \<Rightarrow> KeyBase" where
  "KeyBase_new type_name comment priv pub =
     \<lparr>m_comment = comment, m_pubkey = Some pub, m_added_time = 0, m_lifetime_seconds = 0,
      m_dest_constraints = [], m_confirm_required = False, m_type_name = type_name,
      m_priv_key = Some priv, m_locked_data = []\<rparr>"

definition pubBlob :: "KeyBase \<Rightarrow> bytes" where
  "pubBlob k = (case m_pubkey k of Some pk \<Rightarrow> pk_blob pk | None \<Rightarrow> [])"

definition fingerprint :: "Botan \<Rightarrow> KeyBase \<Rightarrow> bytes" where
  "fingerprint bt k =
     (case m_pubkey k of Some pk \<Rightarrow> sha256_fingerprint bt (pk_blob pk) | None \<Rightarrow> str ''NULL'')"

text \<open>
  \<^verbatim>\<open>std::chrono::duration_cast<std::chrono::seconds>\<close> of a nanosecond count: division
  by \<open>10\<^sup>9\<close> truncating towards zero.
\<close>

definition duration_cast_seconds :: "int \<Rightarrow> int" where
  "duration_cast_seconds ns = sgn ns * (\<bar>ns\<bar> div 1000000000)"

definition seconds :: "int \<Rightarrow> int" where
  "seconds n = n * 1000000000"

text \<open>\<^verbatim>\<open>expired\<close> and \<^verbatim>\<open>setLifetime\<close>; \<open>now\<close> is \<^verbatim>\<open>steady_clock::now()\<close>.\<close>

definition expired :: "int \<Rightarrow> KeyBase \<Rightarrow> bool" where
  "expired now k =
     (if m_lifetime_seconds k = 0 then False
      else let elapsed = duration_cast_seconds (now - m_added_time k)
           in elapsed \<ge> uint (m_lifetime_seconds k))"

definition setLifetime :: "int \<Rightarrow> 32 word \<Rightarrow> KeyBase \<Rightarrow> KeyBase" where
  "setLifetime now lifetime_seconds k =
     k\<lparr>m_lifetime_seconds := lifetime_seconds, m_added_time := now\<rparr>"

definition setConfirmRequired :: "bool \<Rightarrow> KeyBase \<Rightarrow> KeyBase" where
  "setConfirmRequired confirm_required k = k\<lparr>m_confirm_required := confirm_required\<rparr>"

definition setDestConstraints :: "OpenSSHSDestinationConstraint list \<Rightarrow> KeyBase \<Rightarrow> KeyBase" where
  "setDestConstraints constraints k = k\<lparr>m_dest_constraints := constraints\<rparr>"

text \<open>
  \<^verbatim>\<open>lock\<close> and \<^verbatim>\<open>unlock\<close> of the Botan-backed keys.  \<^verbatim>\<open>lock\<close> dereferences the private
  key pointer; on a key that is already locked that is a null dereference, written as an
  error.  \<^verbatim>\<open>unlock\<close> answers \<^verbatim>\<open>false\<close> when Botan returns no key and lets Botan's
  exception through when the passphrase is wrong.
\<close>

definition key_lock :: "Botan \<Rightarrow> bytes \<Rightarrow> KeyBase \<Rightarrow> error + KeyBase" where
  "key_lock bt password k =
     (case m_priv_key k of
        None \<Rightarrow> Inl (RuntimeError ''null private key'')
      | Some priv \<Rightarrow>
          Inr (k\<lparr>m_locked_data := PKCS8_BER_encode bt priv password, m_priv_key := None\<rparr>))"

definition key_unlock :: "Botan \<Rightarrow> bytes \<Rightarrow> KeyBase \<Rightarrow> error + (bool \<times> KeyBase)" where
  "key_unlock bt password k =
     bind (PKCS8_load_key bt (m_locked_data k) password) (\<lambda>unprotected.
       case unprotected of
         None \<Rightarrow> Inr (False, k)
       | Some priv \<Rightarrow> Inr (True, k\<lparr>m_priv_key := Some priv\<rparr>))"

definition sign :: "Botan \<Rightarrow> KeyBase \<Rightarrow> bytes \<Rightarrow> 32 word \<Rightarrow> error + bytes" where
  "sign bt k dat flags =
     (case m_priv_key k of
        None \<Rightarrow> Inl (RuntimeError ''null private key'')
      | Some priv \<Rightarrow> sign_message bt priv (m_type_name k) dat flags)"

text \<open>The Ed25519 and Ed448 constructors and \<^verbatim>\<open>EDDSABase::extractPub\<close>.\<close>

definition eddsa_pub_blob :: "bytes \<Rightarrow> bytes \<Rightarrow> error + bytes" where
  "eddsa_pub_blob type_name pub_data =
     bind (writeString type_name Serializer_new) (\<lambda>s1.
       bind (writeBlob pub_data s1) (\<lambda>s2. Inr (data s2)))"

definition EDDSA_extractPub :: "bytes \<Rightarrow> bytes \<Rightarrow> error + bytes" where
  "EDDSA_extractPub dat type_name =
     bind (readBlob (Deserializer_new dat)) (\<lambda>(pub_data, de).
       eddsa_pub_blob type_name pub_data)"

definition Ed25519Key :: "Botan \<Rightarrow> bytes \<Rightarrow> bytes \<Rightarrow> error + KeyBase" where
  "Ed25519Key bt blob comment =
     bind (readBlob (Deserializer_new blob)) (\<lambda>(pub_data, d1).
       bind (readBlob d1) (\<lambda>(priv_key, d2).
         bind (botan_check (Ed25519_PrivateKey bt priv_key)) (\<lambda>_.
           bind (eddsa_pub_blob (str ''ssh-ed25519'') pub_data) (\<lambda>secure_data.
             bind (ED25519Pub bt secure_data) (\<lambda>pub.
               Inr (KeyBase_new (str ''ssh-ed25519'') comment priv_key pub))))))"

definition Ed448Key :: "Botan \<Rightarrow> bytes \<Rightarrow> bytes \<Rightarrow> error + KeyBase" where
  "Ed448Key bt blob comment =
     bind (readBlob (Deserializer_new blob)) (\<lambda>(pub_data, d1).
       bind (readBlob d1) (\<lambda>(priv_key, d2).
         bind (botan_check (Ed448_PrivateKey bt priv_key)) (\<lambda>_.
           bind (eddsa_pub_blob (str ''ssh-ed448'') pub_data) (\<lambda>secure_data.
             bind (ED448Pub bt secure_data) (\<lambda>pub.
               Inr (KeyBase_new (str ''ssh-ed448'') comment priv_key pub))))))"

text \<open>\<^verbatim>\<open>RsaKey\<close>: the blob holds \<open>n, e, d, iqmp, p, q\<close>; the public blob is \<open>e\<close> then \<open>n\<close>.\<close>

definition rsa_pub_blob :: "bytes \<Rightarrow> bytes \<Rightarrow> error + bytes" where
  "rsa_pub_blob e n =
     bind (writeString (str ''ssh-rsa'') Serializer_new) (\<lambda>s1.
       bind (writeMPInt e s1) (\<lambda>s2.
         bind (writeMPInt n s2) (\<lambda>s3. Inr (data s3))))"

definition RsaKey_extractPub :: "bytes \<Rightarrow> error + bytes" where
  "RsaKey_extractPub dat =
     bind (readMPInt (Deserializer_new dat)) (\<lambda>(n, d1).
       bind (readMPInt d1) (\<lambda>(e, d2). rsa_pub_blob e n))"

definition RsaKey :: "Botan \<Rightarrow> bytes \<Rightarrow> bytes \<Rightarrow> error + KeyBase" where
  "RsaKey bt blob comment =
     bind (readMPInt (Deserializer_new blob)) (\<lambda>(n, d1).
       bind (readMPInt d1) (\<lambda>(e, d2).
         bind (readMPInt d2) (\<lambda>(d, d3).
           bind (discardBlob d3) (\<lambda>d4.
             bind (readMPInt d4) (\<lambda>(p, d5).
               bind (readMPInt d5) (\<lambda>(q, d6).
                 bind (botan_check (RSA_PrivateKey bt p q e d n)) (\<lambda>_.
                   bind (rsa_pub_blob e n) (\<lambda>secure_data.
                     bind (RSAPub bt secure_data) (\<lambda>pub.
                       Inr (KeyBase_new (str ''ssh-rsa'') comment blob pub))))))))))"

text \<open>
  \<^verbatim>\<open>ECDSAKey\<close>.  The constructor writes the type name it was registered under into the
  public blob; \<^verbatim>\<open>extractPub\<close> writes the type name that belongs to the curve named
  inside the blob.  The private scalar is padded with leading zeros to the curve's size.
\<close>

definition ecdsa_pub_blob :: "bytes \<Rightarrow> bytes \<Rightarrow> bytes \<Rightarrow> error + bytes" where
  "ecdsa_pub_blob type_name curve_name pub_data =
     bind (writeString type_name Serializer_new) (\<lambda>s1.
       bind (writeString curve_name s1) (\<lambda>s2.
         bind (writeBlob pub_data s2) (\<lambda>s3. Inr (data s3))))"

definition ecdsa_scalar_size :: "bytes \<Rightarrow> nat" where
  "ecdsa_scalar_size curve_name =
     (if curve_name = str ''nistp256'' then 32
      else if curve_name = str ''nistp384'' then 48
      else 66)"

definition ECDSAKey :: "Botan \<Rightarrow> bytes \<Rightarrow> bytes \<Rightarrow> bytes \<Rightarrow> error + KeyBase" where
  "ECDSAKey bt blob comment type_name =
     bind (readString (Deserializer_new blob)) (\<lambda>(curve_name, d1).
       bind (readBlob d1) (\<lambda>(pub_data, d2).
         bind (readMPInt d2) (\<lambda>(priv0, d3).
           case botan_curve_name curve_name of
             None \<Rightarrow> Inl (RuntimeError ''ECDSABase: unknown curve name'')
           | Some domain \<Rightarrow>
               let priv_key = replicate (ecdsa_scalar_size curve_name - length priv0) 0 @ priv0
               in bind (botan_check (EC_Scalar bt domain priv_key)) (\<lambda>_.
                    bind (ecdsa_pub_blob type_name curve_name pub_data) (\<lambda>secure_data.
                      bind (ECDSAPub bt secure_data) (\<lambda>pub.
                        Inr (KeyBase_new type_name comment priv_key pub)))))))"

definition ECDSAKey_extractPub :: "bytes \<Rightarrow> error + bytes" where
  "ECDSAKey_extractPub dat =
     bind (readString (Deserializer_new dat)) (\<lambda>(curve_name, d1).
       bind (readBlob d1) (\<lambda>(pub_data, d2).
         if curve_name = str ''nistp256''
           then ecdsa_pub_blob (str ''ecdsa-sha2-nistp256'') curve_name pub_data
         else if curve_name = str ''nistp384''
           then ecdsa_pub_blob (str ''ecdsa-sha2-nistp384'') curve_name pub_data
         else if curve_name = str ''nistp521''
           then ecdsa_pub_blob (str ''ecdsa-sha2-nistp521'') curve_name pub_data
         else Inl (RuntimeError ''ECDSABase::extractPub: unknown curve name'')))"

subsection \<open>Key registry (src/key/key-factory.cpp)\<close>

text \<open>
  The registry as \<^verbatim>\<open>KeyFactory::initializeKeyTypes\<close> fills it: the creators, the
  public-blob extractors, the blob skippers and the public-key creators, by type name.
\<close>

definition is_ecdsa_type :: "bytes \<Rightarrow> bool" where
  "is_ecdsa_type ty \<longleftrightarrow>
     ty = str ''ecdsa-sha2-nistp256'' \<or> ty = str ''ecdsa-sha2-nistp384''
       \<or> ty = str ''ecdsa-sha2-nistp521''"

definition createKey :: "Botan \<Rightarrow> bytes \<Rightarrow> bytes \<Rightarrow> bytes \<Rightarrow> error + KeyBase" where
  "createKey bt ty blob comment =
     (if ty = str ''ssh-ed25519'' then Ed25519Key bt blob comment
      else if ty = str ''ssh-ed448'' then Ed448Key bt blob comment
      else if ty = str ''ssh-rsa'' then RsaKey bt blob comment
      else if is_ecdsa_type ty then ECDSAKey bt blob comment ty
      else Inl (RuntimeError ''KeyFactory: unknown key type''))"

definition extractPubKey :: "bytes \<Rightarrow> bytes \<Rightarrow> error + bytes" where
  "extractPubKey ty blob =
     (if ty = str ''ssh-ed25519'' then EDDSA_extractPub blob (str ''ssh-ed25519'')
      else if ty = str ''ssh-ed448'' then EDDSA_extractPub blob (str ''ssh-ed448'')
      else if ty = str ''ssh-rsa'' then RsaKey_extractPub blob
      else if is_ecdsa_type ty then ECDSAKey_extractPub blob
      else Inl (RuntimeError ''KeyFactory: unknown key type for extracting pubkey''))"

definition createPubKey :: "Botan \<Rightarrow> bytes \<Rightarrow> bytes \<Rightarrow> error + PubKeyBase" where
  "createPubKey bt ty blob =
     (if ty = str ''ssh-ed25519'' then ED25519Pub bt blob
      else if ty = str ''ssh-ed448'' then ED448Pub bt blob
      else if ty = str ''ssh-rsa'' then RSAPub bt blob
      else if is_ecdsa_type ty then ECDSAPub bt blob
      else Inl (RuntimeError ''KeyFactory: unknown public key type''))"

fun discardBlobs :: "nat \<Rightarrow> Deserializer \<Rightarrow> error + Deserializer" where
  "discardBlobs 0 d = Inr d"
| "discardBlobs (Suc n) d = bind (discardBlob d) (discardBlobs n)"

definition skipKeyBlob :: "bytes \<Rightarrow> Deserializer \<Rightarrow> error + Deserializer" where
  "skipKeyBlob ty d =
     (if ty = str ''ssh-ed25519'' \<or> ty = str ''ssh-ed448'' then discardBlobs 2 d
      else if ty = str ''ssh-rsa'' then discardBlobs 6 d
      else if is_ecdsa_type ty then discardBlobs 3 d
      else Inl (RuntimeError ''KeyFactory: unknown key type for skipping blob''))"


section \<open>Session data and the permit decision\<close>

record SessionBinding =
  host_key :: bytes
  session_id :: bytes
  forwarded :: bool

text \<open>
  The members of \<^verbatim>\<open>Session\<close> (include/libssha/agent/session.h), and \<open>sent\<close>: the
  buffers handed to the embedder's \<^verbatim>\<open>send\<close>, in order.  Of the two \<^verbatim>\<open>std::thread\<close>
  members the model keeps what the code asks of them: whether the thread is joinable.
  \<open>m_async_operation\<close> is a protected member that the header initialises to \<^verbatim>\<open>true\<close>; a
  subclass may clear it, the library itself never does.
\<close>

record Session =
  m_session_bindings :: "SessionBinding list"
  m_match_info :: MatchInfo
  m_async_operation :: bool
  m_binding_failed :: bool
  m_temp_buffer :: bytes
  m_waiting_for_confirmation :: bool
  m_waiting_for_key_selection :: bool
  m_confirmation_thread :: bool
  m_key_selection_thread :: bool
  m_is_forwarded :: bool
  sent :: "bytes list"

definition Session_new :: Session where
  "Session_new =
     \<lparr>m_session_bindings = [], m_match_info = \<lparr>mi_from = [], mi_to = [], mi_user = []\<rparr>,
      m_async_operation = True,
      m_binding_failed = False, m_temp_buffer = [], m_waiting_for_confirmation = False,
      m_waiting_for_key_selection = False, m_confirmation_thread = False,
      m_key_selection_thread = False, m_is_forwarded = False, sent = []\<rparr>"

text \<open>\<^verbatim>\<open>KeyBase::permittedByConstraints\<close> (src/key/key.cpp): the first matching constraint.\<close>

fun permittedByConstraints_loop ::
  "OpenSSHSDestinationConstraint list \<Rightarrow> bytes \<Rightarrow> bytes \<Rightarrow> bytes \<Rightarrow> MatchInfo option
     \<Rightarrow> bool \<times> MatchInfo option" where
  "permittedByConstraints_loop [] from_key to_key user mi = (False, mi)"
| "permittedByConstraints_loop (c # cs) from_key to_key user mi =
     (case matches c from_key to_key user mi of
        (True, mi') \<Rightarrow> (True, mi')
      | (False, mi') \<Rightarrow> permittedByConstraints_loop cs from_key to_key user mi')"

definition permittedByConstraints ::
  "KeyBase \<Rightarrow> bytes \<Rightarrow> bytes \<Rightarrow> bytes \<Rightarrow> MatchInfo option \<Rightarrow> bool \<times> MatchInfo option" where
  "permittedByConstraints k from_key to_key user mi =
     permittedByConstraints_loop (m_dest_constraints k) from_key to_key user mi"

text \<open>
  The loop of \<^verbatim>\<open>KeyBase::permitted\<close> over the bindings from index \<open>i\<close> on: \<open>s # rest\<close>
  are the bindings not yet visited, so \<open>s\<close> is the last binding exactly when \<open>rest\<close> is
  empty.
\<close>

fun permitted_loop ::
  "KeyBase \<Rightarrow> SessionBinding list \<Rightarrow> bytes \<Rightarrow> bytes \<Rightarrow> MatchInfo option
     \<Rightarrow> bool \<times> MatchInfo option" where
  "permitted_loop k [] from_key user mi = (True, mi)"
| "permitted_loop k (s # rest) from_key user mi =
     (if host_key s = [] then (False, mi)
      else
        let user_to_check = (if rest = [] then user else [])
        in if rest = [] \<and> forwarded s \<and> user_to_check \<noteq> [] then (False, mi)
           else if rest \<noteq> [] \<and> \<not> forwarded s then (False, mi)
           else (case permittedByConstraints k from_key (host_key s) user_to_check mi of
                   (False, mi') \<Rightarrow> (False, mi')
                 | (True, mi') \<Rightarrow> permitted_loop k rest (host_key s) user mi'))"

definition permitted ::
  "KeyBase \<Rightarrow> Session \<Rightarrow> bytes \<Rightarrow> MatchInfo option \<Rightarrow> bool \<times> MatchInfo option" where
  "permitted k session user mi =
     (if m_dest_constraints k = [] then (True, mi)
      else if m_binding_failed session then (False, mi)
      else if m_session_bindings session = [] then (True, mi)
      else
        (case permitted_loop k (m_session_bindings session) [] user mi of
           (False, mi') \<Rightarrow> (False, mi')
         | (True, mi') \<Rightarrow>
             let last_binding = last (m_session_bindings session)
             in if forwarded last_binding \<and> user = []
                   \<and> \<not> fst (permittedByConstraints k (host_key last_binding) [] [] None)
                then (False, mi')
                else (True, mi')))"

section \<open>Key store (src/key/key-manager.cpp)\<close>

text \<open>
  What the observers are told, in order.  The lock provider is the repository's
  \<^verbatim>\<open>BotanLockProvider\<close> with its password hash; \<open>None\<close> when no provider is set.
  \<open>m_failed_attempts\<close> is a \<^verbatim>\<open>size_t\<close> and \<open>m_locked_until\<close> a reading of the steady
  clock in nanoseconds.
\<close>

datatype Event =
    KeyAdded KeyBase
  | KeyPreRemove KeyBase
  | KeyRemoved bytes
  | KeysCleared
  | KeyUsed KeyBase
  | KeyDeclined KeyBase
  | Locked
  | Unlocked

record LockProvider =
  m_hash :: bytes

record KeyManager =
  m_keys :: "KeyBase list"
  m_locked :: bool
  m_failed_attempts :: nat
  m_locked_until :: int
  m_lock_provider :: "LockProvider option"
  observed :: "Event list"

definition KeyManager_new :: "int \<Rightarrow> KeyManager" where
  "KeyManager_new now =
     \<lparr>m_keys = [], m_locked = False, m_failed_attempts = 0,
      m_locked_until = now - seconds 10, m_lock_provider = None, observed = []\<rparr>"

definition emit :: "Event \<Rightarrow> KeyManager \<Rightarrow> KeyManager" where
  "emit ev km = km\<lparr>observed := observed km @ [ev]\<rparr>"

text \<open>\<^verbatim>\<open>findKey\<close> with \<^verbatim>\<open>erase\<close>: drop the first key whose public blob is the given one.\<close>

fun erase_first :: "bytes \<Rightarrow> KeyBase list \<Rightarrow> KeyBase list" where
  "erase_first blob [] = []"
| "erase_first blob (k # ks) = (if pubBlob k = blob then ks else k # erase_first blob ks)"

definition getKey :: "KeyManager \<Rightarrow> bytes \<Rightarrow> KeyBase option" where
  "getKey km key_blob = find (\<lambda>k. pubBlob k = key_blob) (m_keys km)"

text \<open>
  \<^verbatim>\<open>addKey(type, blob, comment)\<close>.  An exception leaves the store as it is at that
  point, so the store is returned together with the exception or the new key.
\<close>

definition addKey ::
  "Botan \<Rightarrow> bytes \<Rightarrow> bytes \<Rightarrow> bytes \<Rightarrow> KeyManager \<Rightarrow> (error + KeyBase) \<times> KeyManager" where
  "addKey bt ty blob comment km =
     (case extractPubKey ty blob of
        Inl e \<Rightarrow> (Inl e, km)
      | Inr pubKey \<Rightarrow>
          let km1 = km\<lparr>m_keys := erase_first pubKey (m_keys km)\<rparr>
          in (case createKey bt ty blob comment of
                Inl e \<Rightarrow> (Inl e, km1)
              | Inr k \<Rightarrow> (Inr k, km1\<lparr>m_keys := m_keys km1 @ [k]\<rparr>)))"

definition removeKey :: "Botan \<Rightarrow> bytes \<Rightarrow> KeyManager \<Rightarrow> KeyManager" where
  "removeKey bt blob km =
     (case getKey km blob of
        None \<Rightarrow> km
      | Some k \<Rightarrow>
          emit (KeyRemoved (fingerprint bt k))
            ((emit (KeyPreRemove k) km)\<lparr>m_keys := erase_first blob (m_keys km)\<rparr>))"

definition removeAllKeys :: "Botan \<Rightarrow> KeyManager \<Rightarrow> KeyManager" where
  "removeAllKeys bt km =
     km\<lparr>m_keys := [],
        observed := observed km @ map KeyPreRemove (m_keys km)
                     @ map (\<lambda>k. KeyRemoved (fingerprint bt k)) (m_keys km) @ [KeysCleared]\<rparr>"

fun cleanup_loop :: "Botan \<Rightarrow> int \<Rightarrow> KeyBase list \<Rightarrow> KeyBase list \<times> Event list" where
  "cleanup_loop bt now [] = ([], [])"
| "cleanup_loop bt now (k # ks) =
     (case cleanup_loop bt now ks of (ks', evs) \<Rightarrow>
        if expired now k then (ks', KeyPreRemove k # KeyRemoved (fingerprint bt k) # evs)
        else (k # ks', evs))"

definition cleanupExpiredKeys :: "Botan \<Rightarrow> int \<Rightarrow> KeyManager \<Rightarrow> KeyManager" where
  "cleanupExpiredKeys bt now km =
     (case cleanup_loop bt now (m_keys km) of (ks', evs) \<Rightarrow>
        km\<lparr>m_keys := ks', observed := observed km @ evs\<rparr>)"

record PubKeyItem =
  item_fingerprint :: bytes
  item_type :: bytes
  item_comment :: bytes
  item_blob :: bytes

definition listKeys :: "Botan \<Rightarrow> KeyManager \<Rightarrow> Session \<Rightarrow> PubKeyItem list" where
  "listKeys bt km session =
     map (\<lambda>k. \<lparr>item_fingerprint = fingerprint bt k, item_type = m_type_name k,
                item_comment = m_comment k, item_blob = pubBlob k\<rparr>)
       (filter (\<lambda>k. fst (permitted k session [] None)) (m_keys km))"

text \<open>
  The loops of \<^verbatim>\<open>lock\<close> and \<^verbatim>\<open>unlock\<close> over the keys.  An exception stops the loop;
  the keys visited before keep their new state.  The truth value \<^verbatim>\<open>key->unlock\<close>
  returns is not looked at.
\<close>

fun lock_keys :: "Botan \<Rightarrow> bytes \<Rightarrow> KeyBase list \<Rightarrow> error option \<times> KeyBase list" where
  "lock_keys bt passphrase [] = (None, [])"
| "lock_keys bt passphrase (k # ks) =
     (case key_lock bt passphrase k of
        Inl e \<Rightarrow> (Some e, k # ks)
      | Inr k' \<Rightarrow> (case lock_keys bt passphrase ks of (r, ks') \<Rightarrow> (r, k' # ks')))"

fun unlock_keys :: "Botan \<Rightarrow> bytes \<Rightarrow> KeyBase list \<Rightarrow> error option \<times> KeyBase list" where
  "unlock_keys bt passphrase [] = (None, [])"
| "unlock_keys bt passphrase (k # ks) =
     (case key_unlock bt passphrase k of
        Inl e \<Rightarrow> (Some e, k # ks)
      | Inr (ok, k') \<Rightarrow> (case unlock_keys bt passphrase ks of (r, ks') \<Rightarrow> (r, k' # ks')))"

definition lock :: "Botan \<Rightarrow> bytes \<Rightarrow> KeyManager \<Rightarrow> error option \<times> KeyManager" where
  "lock bt passphrase km =
     (case m_lock_provider km of
        None \<Rightarrow> (Some Abort, km)
      | Some lp \<Rightarrow>
          if m_locked km then (Some (RuntimeError ''Agent is already locked''), km)
          else
            let km1 = km\<lparr>m_lock_provider := Some (lp\<lparr>m_hash := argon2_generate_pwhash bt passphrase\<rparr>)\<rparr>
            in (case lock_keys bt passphrase (m_keys km1) of
                  (Some e, ks) \<Rightarrow> (Some e, km1\<lparr>m_keys := ks\<rparr>)
                | (None, ks) \<Rightarrow> (None, (emit Locked (km1\<lparr>m_keys := ks\<rparr>))\<lparr>m_locked := True\<rparr>)))"

text \<open>
  \<^verbatim>\<open>static_cast<int>(floor(pow(1.8, m_failed_attempts)))\<close>.  The power is taken exactly:
  \<open>1.8\<^sup>n = 9\<^sup>n / 5\<^sup>n\<close>, so its floor is \<open>9\<^sup>n div 5\<^sup>n\<close>.  The conversion to \<^verbatim>\<open>int\<close> is
  defined only when the value fits 32 bits; \<open>None\<close> is the undefined conversion.
\<close>

definition wait_time :: "nat \<Rightarrow> int option" where
  "wait_time n =
     (let w = (9 ^ n) div (5 ^ n) in if w \<le> 2147483647 then Some w else None)"

text \<open>
  \<^verbatim>\<open>unlock\<close>; \<open>now\<close> is the reading of the steady clock, taken to be the same at each
  of the calls of \<^verbatim>\<open>steady_clock::now()\<close> inside one call of \<^verbatim>\<open>unlock\<close>.
\<close>

definition unlock_try :: "Botan \<Rightarrow> bytes \<Rightarrow> LockProvider \<Rightarrow> KeyBase list \<Rightarrow> error option \<times> KeyBase list" where
  "unlock_try bt passphrase lp ks =
     (if \<not> argon2_check_pwhash bt passphrase (m_hash lp)
      then (Some (RuntimeError ''Incorrect passphrase''), ks)
      else unlock_keys bt passphrase ks)"

definition unlock :: "Botan \<Rightarrow> int \<Rightarrow> bytes \<Rightarrow> KeyManager \<Rightarrow> error option \<times> KeyManager" where
  "unlock bt now passphrase km =
     (if \<not> m_locked km then (Some (RuntimeError ''Agent is not locked''), km)
      else case m_lock_provider km of
        None \<Rightarrow> (Some Abort, km)
      | Some lp \<Rightarrow>
          if now < m_locked_until km
          then (Some (TooManyAttempts (duration_cast_seconds (m_locked_until km - now))),
                km\<lparr>m_failed_attempts := m_failed_attempts km + 1\<rparr>)
          else
            (case unlock_try bt passphrase lp (m_keys km) of
               (Some e, ks) \<Rightarrow>
                 let km1 = km\<lparr>m_keys := ks, m_failed_attempts := m_failed_attempts km + 1\<rparr>
                 in if m_failed_attempts km1 > 2
                    then (case wait_time (m_failed_attempts km1) of
                            None \<Rightarrow> (Some Undefined, km1)
                          | Some w \<Rightarrow> (Some e, km1\<lparr>m_locked_until := now + seconds w\<rparr>))
                    else (Some e, km1)
             | (None, ks) \<Rightarrow>
                 (None, (emit Unlocked (km\<lparr>m_keys := ks\<rparr>))\<lparr>m_locked := False, m_failed_attempts := 0\<rparr>)))"


section \<open>Messages (src/messages)\<close>

definition SSH_AGENTC_REQUEST_IDENTITIES :: byte where "SSH_AGENTC_REQUEST_IDENTITIES = 11"
definition SSH_AGENTC_SIGN_REQUEST :: byte where "SSH_AGENTC_SIGN_REQUEST = 13"
definition SSH_AGENTC_ADD_IDENTITY :: byte where "SSH_AGENTC_ADD_IDENTITY = 17"
definition SSH_AGENTC_REMOVE_IDENTITY :: byte where "SSH_AGENTC_REMOVE_IDENTITY = 18"
definition SSH_AGENTC_REMOVE_ALL_IDENTITIES :: byte where "SSH_AGENTC_REMOVE_ALL_IDENTITIES = 19"
definition SSH_AGENTC_LOCK :: byte where "SSH_AGENTC_LOCK = 22"
definition SSH_AGENTC_UNLOCK :: byte where "SSH_AGENTC_UNLOCK = 23"
definition SSH_AGENTC_ADD_IDENTITY_CONSTRAINED :: byte where "SSH_AGENTC_ADD_IDENTITY_CONSTRAINED = 25"
definition SSH_AGENTC_EXTENSION :: byte where "SSH_AGENTC_EXTENSION = 27"
definition SSH_AGENT_FAILURE :: byte where "SSH_AGENT_FAILURE = 5"
definition SSH_AGENT_SUCCESS :: byte where "SSH_AGENT_SUCCESS = 6"
definition SSH_AGENT_IDENTITIES_ANSWER :: byte where "SSH_AGENT_IDENTITIES_ANSWER = 12"
definition SSH_AGENT_SIGN_RESPONSE :: byte where "SSH_AGENT_SIGN_RESPONSE = 14"
definition SSH_AGENTC_REMOVE_ALL_RSA_IDENTITIES :: byte where "SSH_AGENTC_REMOVE_ALL_RSA_IDENTITIES = 9"
definition SSH_AGENT_CONSTRAIN_LIFETIME :: byte where "SSH_AGENT_CONSTRAIN_LIFETIME = 1"
definition SSH_AGENT_CONSTRAIN_CONFIRM :: byte where "SSH_AGENT_CONSTRAIN_CONFIRM = 2"
definition SSH_AGENT_CONSTRAIN_EXTENSION :: byte where "SSH_AGENT_CONSTRAIN_EXTENSION = 255"
definition SSH_MSG_USERAUTH_REQUEST :: byte where "SSH_MSG_USERAUTH_REQUEST = 50"

text \<open>
  \<^verbatim>\<open>Message(data, length)\<close> reads the length and the type octet and keeps the buffer.
  \<^verbatim>\<open>Message::serialize\<close> writes the length \<open>1\<close> and the type octet.
\<close>

record Message =
  msg_type :: byte
  msg_data :: bytes

definition Message_deserialize :: "Deserializer \<Rightarrow> error + (byte \<times> Deserializer)" where
  "Message_deserialize d = bind (readBE32 d) (\<lambda>(len, d'). readByte d')"

definition Message_new :: "bytes \<Rightarrow> error + Message" where
  "Message_new dat =
     bind (Message_deserialize (Deserializer_new dat)) (\<lambda>(ty, d).
       Inr \<lparr>msg_type = ty, msg_data = dat\<rparr>)"

definition Message_serialize :: "byte \<Rightarrow> Serializer \<Rightarrow> error + Serializer" where
  "Message_serialize ty s = bind (writeBE32 1 s) (writeByte ty)"

definition SimpleMessage_serialize :: "byte \<Rightarrow> error + bytes" where
  "SimpleMessage_serialize ty =
     bind (Message_serialize ty Serializer_new) (\<lambda>s. Inr (s_data s))"

text \<open>
  The typed messages check the type of the message they are built from and that it has
  data, then read the frame again from its start.
\<close>

definition typed_message :: "byte \<Rightarrow> string \<Rightarrow> Message \<Rightarrow> error + Deserializer" where
  "typed_message ty name msg =
     (if msg_type msg \<noteq> ty then Inl (RuntimeError (name @ '': incorrect message type''))
      else if msg_data msg = [] then Inl (RuntimeError (name @ '': no data''))
      else bind (Message_deserialize (Deserializer_new (msg_data msg))) (\<lambda>(t, d).
             if t \<noteq> ty then Inl (RuntimeError (name @ '': incorrect message type''))
             else Inr d))"

record SignRequestMessage =
  sr_key_blob :: bytes
  sr_data_sign :: bytes
  sr_flags :: "32 word"

definition SignRequestMessage_new :: "Message \<Rightarrow> error + SignRequestMessage" where
  "SignRequestMessage_new msg =
     bind (typed_message SSH_AGENTC_SIGN_REQUEST ''SignRequestMessage'' msg) (\<lambda>d.
       bind (readBlob d) (\<lambda>(key_blob, d1).
         bind (readBlob d1) (\<lambda>(data_sign, d2).
           bind (readBE32 d2) (\<lambda>(flags, d3).
             Inr \<lparr>sr_key_blob = key_blob, sr_data_sign = data_sign, sr_flags = flags\<rparr>))))"

definition SignResponseMessage_serialize :: "bytes \<Rightarrow> error + bytes" where
  "SignResponseMessage_serialize signature =
     bind (Message_serialize SSH_AGENT_SIGN_RESPONSE Serializer_new) (\<lambda>s.
       bind (writeBlob signature s) (\<lambda>s1.
         bind (finalize s1) (\<lambda>s2. Inr (s_data s2))))"

definition RemoveIdentityMessage_new :: "Message \<Rightarrow> error + bytes" where
  "RemoveIdentityMessage_new msg =
     bind (typed_message SSH_AGENTC_REMOVE_IDENTITY ''RemoveIdentityMessage'' msg) (\<lambda>d.
       bind (readBlob d) (\<lambda>(key_blob, d1). Inr key_blob))"

definition LockMessageBase_new :: "byte \<Rightarrow> Message \<Rightarrow> error + bytes" where
  "LockMessageBase_new ty msg =
     bind (typed_message ty ''LockMessage'' msg) (\<lambda>d.
       bind (readBlob d) (\<lambda>(password, d1). Inr password))"

fun write_identities :: "PubKeyItem list \<Rightarrow> Serializer \<Rightarrow> error + Serializer" where
  "write_identities [] s = Inr s"
| "write_identities (i # is) s =
     bind (writeBlob (item_blob i) s) (\<lambda>s1.
       bind (writeString (item_comment i) s1) (write_identities is))"

definition IdentitiesAnswerMessage_serialize :: "PubKeyItem list \<Rightarrow> error + bytes" where
  "IdentitiesAnswerMessage_serialize items =
     bind (Message_serialize SSH_AGENT_IDENTITIES_ANSWER Serializer_new) (\<lambda>s.
       bind (writeBE32 (of_nat (length items)) s) (\<lambda>s1.
         bind (write_identities items s1) (\<lambda>s2.
           bind (finalize s2) (\<lambda>s3. Inr (s_data s3)))))"

record UserAuthRequestMessage =
  ua_session_id :: bytes
  ua_username :: bytes
  ua_key_type :: bytes
  ua_public_key :: bytes
  ua_server_host_key :: bytes

definition UserAuthRequestMessage_new :: "bytes \<Rightarrow> error + UserAuthRequestMessage" where
  "UserAuthRequestMessage_new dat =
     bind (readBlob (Deserializer_new dat)) (\<lambda>(sid, d1).
       if sid = [] then Inl (RuntimeError ''UserAuthRequestMessage: empty session ID'')
       else bind (readByte d1) (\<lambda>(msg_ty, d2).
         if msg_ty \<noteq> SSH_MSG_USERAUTH_REQUEST
         then Inl (RuntimeError ''UserAuthRequestMessage: incorrect message type'')
         else bind (readString d2) (\<lambda>(username, d3).
           bind (readString d3) (\<lambda>(service_name, d4).
             bind (readString d4) (\<lambda>(method_name, d5).
               bind (readByte d5) (\<lambda>(has_signature, d6).
                 if service_name \<noteq> str ''ssh-connection''
                    \<or> method_name \<noteq> str ''publickey-hostbound-v00@openssh.com''
                    \<or> has_signature = 0
                 then Inl (RuntimeError ''UserAuthRequestMessage: unsupported service/method/signature'')
                 else bind (readString d6) (\<lambda>(key_type, d7).
                   bind (readBlob d7) (\<lambda>(public_key, d8).
                     bind (readBlob d8) (\<lambda>(server_host_key, d9).
                       Inr \<lparr>ua_session_id = sid, ua_username = username, ua_key_type = key_type,
                            ua_public_key = public_key,
                            ua_server_host_key = server_host_key\<rparr>)))))))))"

section \<open>Extensions (src/extensions)\<close>

record OpenSSHSessionBind =
  sb_host_key :: bytes
  sb_session_id :: bytes
  sb_signature :: bytes
  sb_forwarded :: bool

datatype Extension =
    SessionBindExt OpenSSHSessionBind
  | RestrictDestinationExt "OpenSSHSDestinationConstraint list"
  | OtherExt

text \<open>
  \<^verbatim>\<open>OpenSSHSessionBind::deserialize\<close>: the four fields, then the host key is parsed into
  a public key, and a non-empty signature is verified over the session id.
\<close>

definition OpenSSHSessionBind_deserialize ::
  "Botan \<Rightarrow> Deserializer \<Rightarrow> error + (OpenSSHSessionBind \<times> Deserializer)" where
  "OpenSSHSessionBind_deserialize bt d =
     bind (readBlob d) (\<lambda>(hk, d1).
       bind (readBlob d1) (\<lambda>(sid, d2).
         bind (readBlob d2) (\<lambda>(sig, d3).
           bind (readByte d3) (\<lambda>(fwd, d4).
             bind (readString (Deserializer_new hk)) (\<lambda>(key_type, d_hk).
               bind (readBlob d_hk) (\<lambda>(blob_key, d_hk').
                 bind (createPubKey bt key_type hk) (\<lambda>pubkey.
                   let ext = \<lparr>sb_host_key = hk, sb_session_id = sid, sb_signature = sig,
                              sb_forwarded = (fwd \<noteq> 0)\<rparr>
                   in if sig \<noteq> [] then
                        bind (readString (Deserializer_new sig)) (\<lambda>(sig_type, d_sig).
                          bind (readBlob d_sig) (\<lambda>(sig_blob, d_sig').
                            bind (verify_message bt pubkey sid sig) (\<lambda>ok.
                              if \<not> ok
                              then Inl (RuntimeError ''OpenSSHSessionBind: signature verification failed'')
                              else Inr (ext, d4))))
                      else Inr (ext, d4))))))))"

text \<open>The hop, constraint and restrict-destination parsers.\<close>

function hop_keys_loop :: "Deserializer \<Rightarrow> OpenSSHHopKey list \<Rightarrow> error + OpenSSHHopKey list" where
  "hop_keys_loop d acc =
     (if remaining d > 0 then
        (case readBlob d of
           Inl e \<Rightarrow> Inl e
         | Inr (k, d1) \<Rightarrow>
             (case readByte d1 of
                Inl e \<Rightarrow> Inl e
              | Inr (b, d2) \<Rightarrow> hop_keys_loop d2 (acc @ [\<lparr>key = k, key_is_ca = (b \<noteq> 0)\<rparr>])))
      else Inr acc)"
  by pat_completeness auto
termination
  by (relation "measure (\<lambda>(d, acc). remaining d)")
     (auto simp add: readBlob_def readBE32_def readByte_def bind_def remaining_def m_length_def
           split: if_splits sum.splits prod.splits)

declare hop_keys_loop.simps [simp del]

definition OpenSSHHopDescriptor_new :: "bytes \<Rightarrow> error + OpenSSHHopDescriptor" where
  "OpenSSHHopDescriptor_new dat =
     bind (readString (Deserializer_new dat)) (\<lambda>(user, d1).
       bind (readString d1) (\<lambda>(hostname, d2).
         bind (readBlob d2) (\<lambda>(extensions, d3).
           if extensions \<noteq> [] then Inl (RuntimeError ''OpenSSHHopDescriptor: extensions not supported'')
           else bind (hop_keys_loop d3 []) (\<lambda>ks.
                  Inr \<lparr>hop_user = user, hop_hostname = hostname, hop_keys = ks\<rparr>))))"

definition OpenSSHSDestinationConstraint_new :: "bytes \<Rightarrow> error + OpenSSHSDestinationConstraint" where
  "OpenSSHSDestinationConstraint_new dat =
     bind (readBlob (Deserializer_new dat)) (\<lambda>(from_hop, d1).
       bind (readBlob d1) (\<lambda>(to_hop, d2).
         bind (readBlob d2) (\<lambda>(extensions, d3).
           if extensions \<noteq> []
           then Inl (RuntimeError ''OpenSSHSDestinationConstraint: extensions not supported'')
           else bind (OpenSSHHopDescriptor_new from_hop) (\<lambda>from.
                  bind (OpenSSHHopDescriptor_new to_hop) (\<lambda>to.
                    if (hop_hostname from = []) \<noteq> (hop_keys from = []) \<or> hop_user from \<noteq> []
                    then Inl (RuntimeError ''OpenSSHSDestinationConstraint: invalid from_hop'')
                    else if hop_hostname to = [] \<or> hop_keys to = []
                    then Inl (RuntimeError ''OpenSSHSDestinationConstraint: invalid to_hop'')
                    else Inr \<lparr>m_from_hop = from, m_to_hop = to\<rparr>)))))"

function restrict_destination_loop ::
  "Deserializer \<Rightarrow> OpenSSHSDestinationConstraint list
     \<Rightarrow> error + OpenSSHSDestinationConstraint list" where
  "restrict_destination_loop dd acc =
     (case readBlob dd of
        Inl e \<Rightarrow> Inl e
      | Inr (b, dd1) \<Rightarrow>
          (case OpenSSHSDestinationConstraint_new b of
             Inl e \<Rightarrow> Inl e
           | Inr c \<Rightarrow>
               if remaining dd1 > 0 then restrict_destination_loop dd1 (acc @ [c])
               else Inr (acc @ [c])))"
  by pat_completeness auto
termination
  by (relation "measure (\<lambda>(d, acc). remaining d)")
     (auto simp add: readBlob_def readBE32_def bind_def remaining_def m_length_def
           split: if_splits sum.splits prod.splits)

declare restrict_destination_loop.simps [simp del]

definition OpenSSHSRestrictDestination_deserialize ::
  "Deserializer \<Rightarrow> error + (OpenSSHSDestinationConstraint list \<times> Deserializer)" where
  "OpenSSHSRestrictDestination_deserialize d =
     bind (readBlob d) (\<lambda>(dat, d1).
       bind (restrict_destination_loop (Deserializer_new dat) []) (\<lambda>cs. Inr (cs, d1)))"

text \<open>
  The extension registry (src/extensions/extension-factory.cpp).  Message extensions are
  looked up by name; \<^verbatim>\<open>initializeExtensions\<close> registers the session binding, and the
  embedder may register classes of its own, each with its \<^verbatim>\<open>deserialize\<close>.
  \<^verbatim>\<open>createMessageExtension\<close> throws for a name that is not registered.  Of the constraint
  extensions the model has the one the library registers.
\<close>

datatype ExtensionCreator =
    CreateSessionBind
  | CreateOther "Deserializer \<Rightarrow> error + Deserializer"

record ExtensionFactory =
  m_message_extension_creators :: "bytes \<Rightarrow> ExtensionCreator option"

definition initializeExtensions :: ExtensionFactory where
  "initializeExtensions =
     \<lparr>m_message_extension_creators =
        (\<lambda>n. if n = str ''session-bind@openssh.com'' then Some CreateSessionBind else None)\<rparr>"

definition registerMessageExtension ::
  "bytes \<Rightarrow> ExtensionCreator \<Rightarrow> ExtensionFactory \<Rightarrow> ExtensionFactory" where
  "registerMessageExtension ext_name creator fac =
     fac\<lparr>m_message_extension_creators :=
           (\<lambda>n. if n = ext_name then Some creator else m_message_extension_creators fac n)\<rparr>"

definition createMessageExtension :: "ExtensionFactory \<Rightarrow> bytes \<Rightarrow> error + ExtensionCreator" where
  "createMessageExtension fac ext_name =
     (case m_message_extension_creators fac ext_name of
        Some creator \<Rightarrow> Inr creator
      | None \<Rightarrow> Inl (RuntimeError ''ExtensionFactory: unknown message extension''))"

definition createConstraintExtension :: "bytes \<Rightarrow> error + unit" where
  "createConstraintExtension ext_name =
     (if ext_name = str ''restrict-destination-v00@openssh.com'' then Inr ()
      else Inl (RuntimeError ''ExtensionFactory: unknown constraint extension''))"

definition Extension_deserialize ::
  "Botan \<Rightarrow> ExtensionCreator \<Rightarrow> Deserializer \<Rightarrow> error + (Extension \<times> Deserializer)" where
  "Extension_deserialize bt creator d =
     (case creator of
        CreateSessionBind \<Rightarrow>
          bind (OpenSSHSessionBind_deserialize bt d) (\<lambda>(ext, d'). Inr (SessionBindExt ext, d'))
      | CreateOther deser \<Rightarrow> bind (deser d) (\<lambda>d'. Inr (OtherExt, d')))"

record ExtensionMessage =
  m_extension_name :: bytes
  m_extension :: "Extension option"

text \<open>\<^verbatim>\<open>ExtensionMessage(const Message &)\<close> with \<^verbatim>\<open>ExtensionMessage::deserialize\<close>.\<close>

definition ExtensionMessage_new ::
  "Botan \<Rightarrow> ExtensionFactory \<Rightarrow> Message \<Rightarrow> error + ExtensionMessage" where
  "ExtensionMessage_new bt fac msg =
     (if msg_type msg \<noteq> SSH_AGENTC_EXTENSION
      then Inl (RuntimeError ''ExtensionMessage: incorrect message type'')
      else if msg_data msg = [] then Inl (RuntimeError ''ExtensionMessage: no data'')
      else bind (Message_deserialize (Deserializer_new (msg_data msg))) (\<lambda>(t, d).
             bind (readString d) (\<lambda>(ext_name, d1).
               bind (createMessageExtension fac ext_name) (\<lambda>creator.
                 bind (Extension_deserialize bt creator d1) (\<lambda>(ext, d2).
                   Inr \<lparr>m_extension_name = ext_name, m_extension = Some ext\<rparr>)))))"


text \<open>\<^verbatim>\<open>AddIdentityMessage\<close> (src/messages/add-identity.cpp) with its constraint loop.\<close>

record AddIdentityMessage =
  ai_type :: byte
  ai_key_type :: bytes
  ai_key_blob :: bytes
  ai_key_comment :: bytes
  ai_confirm_required :: bool
  ai_lifetime :: "32 word"
  ai_extension :: "Extension option"

function constraints_loop :: "Deserializer \<Rightarrow> AddIdentityMessage \<Rightarrow> error + AddIdentityMessage" where
  "constraints_loop d m =
     (if remaining d > 0 then
        (case readByte d of
           Inl e \<Rightarrow> Inl e
         | Inr (constr, d1) \<Rightarrow>
             if constr = SSH_AGENT_CONSTRAIN_CONFIRM
               then constraints_loop d1 (m\<lparr>ai_confirm_required := True\<rparr>)
             else if constr = SSH_AGENT_CONSTRAIN_LIFETIME
               then (case readBE32 d1 of
                       Inl e \<Rightarrow> Inl e
                     | Inr (lt, d2) \<Rightarrow> constraints_loop d2 (m\<lparr>ai_lifetime := lt\<rparr>))
             else if constr = SSH_AGENT_CONSTRAIN_EXTENSION
               then (case readString d1 of
                       Inl e \<Rightarrow> Inl e
                     | Inr (ext_type, d2) \<Rightarrow>
                         (case createConstraintExtension ext_type of
                            Inl e \<Rightarrow> Inl e
                          | Inr u \<Rightarrow>
                              (case OpenSSHSRestrictDestination_deserialize d2 of
                                 Inl e \<Rightarrow> Inl e
                               | Inr (cs, d3) \<Rightarrow>
                                   constraints_loop d3
                                     (m\<lparr>ai_extension := Some (RestrictDestinationExt cs)\<rparr>))))
             else Inl (RuntimeError ''AddIdentityMessage: unknown constraint type''))
      else Inr m)"
  by pat_completeness auto
termination
  by (relation "measure (\<lambda>(d, m). remaining d)")
     (auto simp add: readBlob_def readString_def readBE32_def readByte_def bind_def remaining_def
                     m_length_def OpenSSHSRestrictDestination_deserialize_def
           split: if_splits sum.splits prod.splits)

declare constraints_loop.simps [simp del]

definition AddIdentityMessage_new :: "Message \<Rightarrow> error + AddIdentityMessage" where
  "AddIdentityMessage_new msg =
     (if msg_type msg \<noteq> SSH_AGENTC_ADD_IDENTITY \<and> msg_type msg \<noteq> SSH_AGENTC_ADD_IDENTITY_CONSTRAINED
      then Inl (RuntimeError ''AddIdentityMessage: incorrect message type'')
      else if msg_data msg = [] then Inl (RuntimeError ''AddIdentityMessage: no data'')
      else bind (Message_deserialize (Deserializer_new (msg_data msg))) (\<lambda>(ty, d).
        if ty \<noteq> SSH_AGENTC_ADD_IDENTITY \<and> ty \<noteq> SSH_AGENTC_ADD_IDENTITY_CONSTRAINED
        then Inl (RuntimeError ''AddIdentityMessage: incorrect message type'')
        else bind (readString d) (\<lambda>(key_type, d1).
          bind (skipKeyBlob key_type d1) (\<lambda>d2.
            bind (sliceSecure (m_offset d1) (m_offset d2) d2) (\<lambda>key_blob.
              bind (readString d2) (\<lambda>(key_comment, d3).
                let m = \<lparr>ai_type = ty, ai_key_type = key_type, ai_key_blob = key_blob,
                         ai_key_comment = key_comment, ai_confirm_required = False,
                         ai_lifetime = 0, ai_extension = None\<rparr>
                in if ty = SSH_AGENTC_ADD_IDENTITY_CONSTRAINED then constraints_loop d3 m
                   else Inr m))))))"

text \<open>
  \<^verbatim>\<open>KeyManager::addKey(AddIdentityMessage &)\<close>: the key just appended is the last of
  the list; its lifetime, confirmation flag and destination constraints are set there.
\<close>

definition configure_key :: "int \<Rightarrow> AddIdentityMessage \<Rightarrow> KeyBase \<Rightarrow> KeyBase" where
  "configure_key now msg k =
     (let k1 = (if ai_lifetime msg > 0 then setLifetime now (ai_lifetime msg) k else k);
          k2 = setConfirmRequired (ai_confirm_required msg) k1
      in case ai_extension msg of
           Some (RestrictDestinationExt cs) \<Rightarrow> setDestConstraints cs k2
         | _ \<Rightarrow> k2)"

definition addKey_msg ::
  "Botan \<Rightarrow> int \<Rightarrow> AddIdentityMessage \<Rightarrow> KeyManager \<Rightarrow> error option \<times> KeyManager" where
  "addKey_msg bt now msg km =
     (case addKey bt (ai_key_type msg) (ai_key_blob msg) (ai_key_comment msg) km of
        (Inl e, km1) \<Rightarrow> (Some e, km1)
      | (Inr k, km1) \<Rightarrow>
          let k' = configure_key now msg k
          in (None, emit (KeyAdded k') (km1\<lparr>m_keys := butlast (m_keys km1) @ [k']\<rparr>)))"

section \<open>Session state machine (src/agent/session.cpp)\<close>

text \<open>
  The hooks the embedder implements.  The library as configured: Botan, the hooks and
  the extension registry.
\<close>

record Embedder =
  confirmRequest :: "KeyBase \<Rightarrow> bool"
  requiresConfirmation :: "KeyBase \<Rightarrow> bool"
  processExtensionMessage :: "ExtensionMessage \<Rightarrow> bool"

record Config =
  botan :: Botan
  embedder :: Embedder
  factory :: ExtensionFactory

definition send :: "bytes \<Rightarrow> Session \<Rightarrow> Session" where
  "send response ses = ses\<lparr>sent := sent ses @ [response]\<rparr>"

definition respond :: "byte \<Rightarrow> Session \<Rightarrow> Session" where
  "respond ty ses =
     (case SimpleMessage_serialize ty of Inr response \<Rightarrow> send response ses | Inl e \<Rightarrow> ses)"

definition successResponse :: "Session \<Rightarrow> Session" where
  "successResponse ses = respond SSH_AGENT_SUCCESS ses"

definition failureResponse :: "Session \<Rightarrow> Session" where
  "failureResponse ses = respond SSH_AGENT_FAILURE ses"

definition clear :: "MatchInfo" where
  "clear = \<lparr>mi_from = [], mi_to = [], mi_user = []\<rparr>"

text \<open>
  A handler returns what \<^verbatim>\<open>processReal\<close> returns, with the key store and the session
  as they are afterwards; \<open>Inl\<close> is for what leaves the handler uncaught.
  \<open>caught\<close> is the handlers' \<^verbatim>\<open>catch (const std::exception &)\<close>: reply FAILURE, return
  \<^verbatim>\<open>false\<close>.
\<close>

type_synonym outcome = "error + (bool \<times> KeyManager \<times> Session)"

definition caught :: "error \<Rightarrow> KeyManager \<Rightarrow> Session \<Rightarrow> outcome" where
  "caught e km ses = (if is_exception e then Inr (False, km, failureResponse ses) else Inl e)"

definition processAddIdentity :: "Config \<Rightarrow> int \<Rightarrow> Message \<Rightarrow> KeyManager \<Rightarrow> Session \<Rightarrow> outcome" where
  "processAddIdentity cfg now msg km ses =
     (case AddIdentityMessage_new msg of
        Inl e \<Rightarrow> caught e km ses
      | Inr add_msg \<Rightarrow>
          (case addKey_msg (botan cfg) now add_msg km of
             (Some e, km1) \<Rightarrow> caught e km1 ses
           | (None, km1) \<Rightarrow> Inr (True, km1, successResponse ses)))"

definition processRemoveAllIdentity :: "Config \<Rightarrow> KeyManager \<Rightarrow> Session \<Rightarrow> outcome" where
  "processRemoveAllIdentity cfg km ses =
     Inr (True, removeAllKeys (botan cfg) km, successResponse ses)"

definition processRemoveIdentity :: "Config \<Rightarrow> Message \<Rightarrow> KeyManager \<Rightarrow> Session \<Rightarrow> outcome" where
  "processRemoveIdentity cfg msg km ses =
     (case RemoveIdentityMessage_new msg of
        Inl e \<Rightarrow> caught e km ses
      | Inr key_blob \<Rightarrow> Inr (True, removeKey (botan cfg) key_blob km, successResponse ses))"

text \<open>
  The destination-constraint check of \<^verbatim>\<open>processSignRequest\<close>: the exception it throws,
  if any, and the session with the match information \<^verbatim>\<open>permitted\<close> has written.
\<close>

definition check_dest_constraints ::
  "KeyBase \<Rightarrow> SignRequestMessage \<Rightarrow> Session \<Rightarrow> error option \<times> Session" where
  "check_dest_constraints k sign_msg ses =
     (if m_dest_constraints k \<noteq> [] then
        if m_session_bindings ses = [] then (Some (RuntimeError ''Session has no bindings''), ses)
        else
          (case UserAuthRequestMessage_new (sr_data_sign sign_msg) of
             Inl e \<Rightarrow> (Some e, ses)
           | Inr userauth_msg \<Rightarrow>
               (case permitted k ses (ua_username userauth_msg) (Some (m_match_info ses)) of
                  (ok, mi) \<Rightarrow>
                    let ses1 = (case mi of Some m \<Rightarrow> ses\<lparr>m_match_info := m\<rparr> | None \<Rightarrow> ses)
                    in if \<not> ok
                       then (Some (RuntimeError ''Key not permitted by destination constraints''), ses1)
                       else if ua_session_id userauth_msg \<noteq> session_id (last (m_session_bindings ses))
                       then (Some (RuntimeError ''Session ID does not match any session bindings''), ses1)
                       else (None, ses1)))
      else (None, ses))"

definition processSignRequest :: "Config \<Rightarrow> Message \<Rightarrow> KeyManager \<Rightarrow> Session \<Rightarrow> outcome" where
  "processSignRequest cfg msg km ses =
     (case SignRequestMessage_new msg of
        Inl e \<Rightarrow> caught e km ses
      | Inr sign_msg \<Rightarrow>
          (case getKey km (sr_key_blob sign_msg) of
             None \<Rightarrow> caught (RuntimeError ''Key not found for signing'') km ses
           | Some k \<Rightarrow>
               (case check_dest_constraints k sign_msg ses of
                  (Some e, ses1) \<Rightarrow> caught e km ses1
                | (None, ses1) \<Rightarrow>
                    if (m_confirm_required k \<or> requiresConfirmation (embedder cfg) k)
                       \<and> \<not> confirmRequest (embedder cfg) k
                    then Inr (False, emit (KeyDeclined k) km,
                              (failureResponse ses1)\<lparr>m_match_info := clear\<rparr>)
                    else
                      (case sign (botan cfg) k (sr_data_sign sign_msg) (sr_flags sign_msg) of
                         Inl e \<Rightarrow> caught e km ses1
                       | Inr signature \<Rightarrow>
                           let km1 = emit (KeyUsed k) km;
                               ses2 = ses1\<lparr>m_match_info := clear\<rparr>
                           in (case SignResponseMessage_serialize signature of
                                 Inl e \<Rightarrow> caught e km1 ses2
                               | Inr response \<Rightarrow> Inr (True, km1, send response ses2))))))"

text \<open>
  \<^verbatim>\<open>processRequestIdentities\<close> as \<^verbatim>\<open>Session\<close> implements it.  It has no handler of its
  own: an exception of the serializer leaves it.
\<close>

definition processRequestIdentities :: "Config \<Rightarrow> KeyManager \<Rightarrow> Session \<Rightarrow> error + Session" where
  "processRequestIdentities cfg km ses =
     bind (IdentitiesAnswerMessage_serialize (listKeys (botan cfg) km ses)) (\<lambda>response.
       Inr (send response ses))"

text \<open>
  \<^verbatim>\<open>processExtension\<close>.  \<open>processExtension_try\<close> is the body of the \<^verbatim>\<open>try\<close> block; the
  handler sets \<open>m_binding_failed\<close>, clears the bindings and replies FAILURE.
\<close>

definition processExtension_try :: "Config \<Rightarrow> Message \<Rightarrow> Session \<Rightarrow> error + (bool \<times> Session)" where
  "processExtension_try cfg msg ses =
     bind (ExtensionMessage_new (botan cfg) (factory cfg) msg) (\<lambda>ext_msg.
       if processExtensionMessage (embedder cfg) ext_msg then Inr (True, successResponse ses)
       else if m_extension_name ext_msg \<noteq> str ''session-bind@openssh.com''
         then Inr (False, failureResponse ses)
       else (case m_extension ext_msg of
               Some (SessionBindExt ext) \<Rightarrow>
                 Inr (True,
                      successResponse
                        (ses\<lparr>m_is_forwarded := (m_is_forwarded ses \<or> sb_forwarded ext),
                             m_session_bindings := m_session_bindings ses @
                               [\<lparr>host_key = sb_host_key ext, session_id = sb_session_id ext,
                                 forwarded = sb_forwarded ext\<rparr>]\<rparr>))
             | _ \<Rightarrow> Inl (RuntimeError ''Invalid extension type'')))"

definition processExtension :: "Config \<Rightarrow> Message \<Rightarrow> KeyManager \<Rightarrow> Session \<Rightarrow> outcome" where
  "processExtension cfg msg km ses =
     (case processExtension_try cfg msg ses of
        Inr (r, ses1) \<Rightarrow> Inr (r, km, ses1)
      | Inl e \<Rightarrow>
          if is_exception e
          then Inr (False, km,
                    failureResponse (ses\<lparr>m_binding_failed := True, m_session_bindings := []\<rparr>))
          else Inl e)"

definition processLock :: "Config \<Rightarrow> Message \<Rightarrow> KeyManager \<Rightarrow> Session \<Rightarrow> outcome" where
  "processLock cfg msg km ses =
     (case LockMessageBase_new SSH_AGENTC_LOCK msg of
        Inl e \<Rightarrow> caught e km ses
      | Inr password \<Rightarrow>
          (case lock (botan cfg) password km of
             (Some e, km1) \<Rightarrow> caught e km1 ses
           | (None, km1) \<Rightarrow> Inr (True, km1, successResponse ses)))"

definition processUnlock :: "Config \<Rightarrow> int \<Rightarrow> Message \<Rightarrow> KeyManager \<Rightarrow> Session \<Rightarrow> outcome" where
  "processUnlock cfg now msg km ses =
     (case LockMessageBase_new SSH_AGENTC_UNLOCK msg of
        Inl e \<Rightarrow> caught e km ses
      | Inr password \<Rightarrow>
          (case unlock (botan cfg) now password km of
             (Some e, km1) \<Rightarrow> caught e km1 ses
           | (None, km1) \<Rightarrow> Inr (True, km1, successResponse ses)))"

text \<open>
  A thread of the session.  \<open>thread_exit\<close>: an exception that leaves the function a
  \<^verbatim>\<open>std::thread\<close> runs ends the program (\<^verbatim>\<open>std::terminate\<close>); no handler of the session
  sees it.
\<close>

definition thread_exit :: "error \<Rightarrow> error" where
  "thread_exit e = (if is_exception e then Abort else e)"

text \<open>
  \<^verbatim>\<open>processReal\<close>.  The sign and list requests run on a thread of their own, which sets
  and resets the waiting flag around the handler; \<^verbatim>\<open>processReal\<close> returns \<^verbatim>\<open>true\<close>
  whatever the handler returned.  The new thread is move-assigned to the member: if the
  member is still joinable the assignment ends the program (\<^verbatim>\<open>std::terminate\<close>).  The
  session joins the thread before it returns only when \<open>m_async_operation\<close> is off;
  otherwise the member stays joinable, as nothing but the destructor joins it.  Requests of
  one session arrive in order, the next one after the reply to the one before: the thread
  is taken to have run to its end when the next request is looked at, so its effect on
  the session is placed here.
\<close>

definition processReal :: "Config \<Rightarrow> int \<Rightarrow> bytes \<Rightarrow> KeyManager \<Rightarrow> Session \<Rightarrow> outcome" where
  "processReal cfg now dat km ses =
     bind (Message_new dat) (\<lambda>msg.
       if m_locked km \<and> msg_type msg \<noteq> SSH_AGENTC_UNLOCK
         then Inr (False, km, failureResponse ses)
       else if msg_type msg = SSH_AGENTC_ADD_IDENTITY
               \<or> msg_type msg = SSH_AGENTC_ADD_IDENTITY_CONSTRAINED
         then processAddIdentity cfg now msg km ses
       else if msg_type msg = SSH_AGENTC_REMOVE_IDENTITY
         then processRemoveIdentity cfg msg km ses
       else if msg_type msg = SSH_AGENTC_REMOVE_ALL_IDENTITIES
         then processRemoveAllIdentity cfg km ses
       else if msg_type msg = SSH_AGENTC_SIGN_REQUEST
         then (if m_waiting_for_confirmation ses
               then Inl (LogicError ''Multiple connections using single Session instance'')
               else if m_confirmation_thread ses then Inl Abort
               else (case processSignRequest cfg msg km
                            (ses\<lparr>m_confirmation_thread := True,
                                 m_waiting_for_confirmation := True\<rparr>) of
                       Inl e \<Rightarrow> Inl (thread_exit e)
                     | Inr (r, km1, ses1) \<Rightarrow>
                         Inr (True, km1,
                              ses1\<lparr>m_waiting_for_confirmation := False,
                                   m_confirmation_thread := m_async_operation ses1\<rparr>)))
       else if msg_type msg = SSH_AGENTC_REQUEST_IDENTITIES
         then (if m_waiting_for_key_selection ses
               then Inl (LogicError ''Multiple connections using single Session instance'')
               else if m_key_selection_thread ses then Inl Abort
               else (case processRequestIdentities cfg km
                            (ses\<lparr>m_key_selection_thread := True,
                                 m_waiting_for_key_selection := True\<rparr>) of
                       Inl e \<Rightarrow> Inl (thread_exit e)
                     | Inr ses1 \<Rightarrow>
                         Inr (True, km,
                              ses1\<lparr>m_waiting_for_key_selection := False,
                                   m_key_selection_thread := m_async_operation ses1\<rparr>)))
       else if msg_type msg = SSH_AGENTC_EXTENSION
         then processExtension cfg msg km ses
       else if msg_type msg = SSH_AGENTC_LOCK
         then processLock cfg msg km ses
       else if msg_type msg = SSH_AGENTC_UNLOCK
         then processUnlock cfg now msg km ses
       else if msg_type msg = SSH_AGENTC_REMOVE_ALL_RSA_IDENTITIES
         then processRemoveAllIdentity cfg km ses
       else Inr (False, km, failureResponse ses))"

text \<open>
  \<^verbatim>\<open>process\<close>: fewer than five octets are kept for the next call; a kept prefix is joined
  with the new octets and cleared once \<^verbatim>\<open>processReal\<close> has returned.
\<close>

definition process :: "Config \<Rightarrow> int \<Rightarrow> bytes \<Rightarrow> KeyManager \<Rightarrow> Session \<Rightarrow> outcome" where
  "process cfg now dat km ses =
     (if m_temp_buffer ses \<noteq> [] then
        let ses1 = ses\<lparr>m_temp_buffer := m_temp_buffer ses @ dat\<rparr>
        in bind (processReal cfg now (m_temp_buffer ses1) km ses1)
             (\<lambda>(r, km1, ses2). Inr (r, km1, ses2\<lparr>m_temp_buffer := []\<rparr>))
      else if length dat < 5 then Inr (True, km, ses\<lparr>m_temp_buffer := m_temp_buffer ses @ dat\<rparr>)
      else processReal cfg now dat km ses)"


text \<open>A session fed a sequence of chunks, each with the clock reading at its arrival.\<close>

fun process_all ::
  "Config \<Rightarrow> (int \<times> bytes) list \<Rightarrow> KeyManager \<Rightarrow> Session \<Rightarrow> error + (KeyManager \<times> Session)" where
  "process_all cfg [] km ses = Inr (km, ses)"
| "process_all cfg (inp # rest) km ses =
     bind (process cfg (fst inp) (snd inp) km ses)
       (\<lambda>(r, km1, ses1). process_all cfg rest km1 ses1)"

section \<open>A stand-in configuration\<close>

text \<open>
  To run the model on concrete inputs the parameters need values.  The stand-in for
  Botan accepts every key; a signature verifies when it ends with the signed data; the
  protected form of a private key is the passphrase followed by the key, and loading it
  with another passphrase throws; the password hash is the password itself.  The
  stand-in embedder confirms every request, asks for no confirmation of its own and
  consumes no extension.
\<close>

definition toy_botan :: Botan where
  "toy_botan =
     \<lparr>Ed25519_PublicKey = (\<lambda>_. True), Ed448_PublicKey = (\<lambda>_. True),
      RSA_PublicKey = (\<lambda>_ _. True), EC_AffinePoint = (\<lambda>_ _. True),
      Ed25519_PrivateKey = (\<lambda>_. True), Ed448_PrivateKey = (\<lambda>_. True),
      RSA_PrivateKey = (\<lambda>_ _ _ _ _. True), EC_Scalar = (\<lambda>_ _. True),
      verify_message = (\<lambda>pk dat sig. Inr (drop (length sig - length dat) sig = dat)),
      sign_message = (\<lambda>priv ty dat flags. Inr dat),
      PKCS8_BER_encode = (\<lambda>priv pass. pass @ priv),
      PKCS8_load_key = (\<lambda>dat pass. if take (length pass) dat = pass
                                     then Inr (Some (drop (length pass) dat))
                                     else Inl (RuntimeError ''Botan'')),
      sha256_fingerprint = (\<lambda>blob. blob),
      argon2_generate_pwhash = (\<lambda>pass. pass),
      argon2_check_pwhash = (\<lambda>pass h. pass = h)\<rparr>"

definition toy_embedder :: Embedder where
  "toy_embedder =
     \<lparr>confirmRequest = (\<lambda>_. True), requiresConfirmation = (\<lambda>_. False),
      processExtensionMessage = (\<lambda>_. False)\<rparr>"

definition toy_config :: Config where
  "toy_config = \<lparr>botan = toy_botan, embedder = toy_embedder, factory = initializeExtensions\<rparr>"


definition toy_constraint :: OpenSSHSDestinationConstraint where
  "toy_constraint =
     \<lparr>m_from_hop = \<lparr>hop_user = [], hop_hostname = [], hop_keys = []\<rparr>,
      m_to_hop = \<lparr>hop_user = [], hop_hostname = str ''host'',
                  hop_keys = [\<lparr>key = [9], key_is_ca = False\<rparr>]\<rparr>\<rparr>"

definition toy_key :: "bytes \<Rightarrow> OpenSSHSDestinationConstraint list \<Rightarrow> KeyBase" where
  "toy_key blob cs =
     (KeyBase_new (str ''ssh-ed25519'') (str ''k1'') [2]
        \<lparr>pk_blob = blob, pk_type = str ''ssh-ed25519''\<rparr>)\<lparr>m_dest_constraints := cs\<rparr>"

text \<open>
  Frames for the examples: an EXTENSION request named \<open>foo\<close>; a session binding with
  host key \<open>ssh-ed25519\<close>, session id \<open>05\<close>, a signature that does not end with the
  session id, not forwarded; the same binding with a signature that does; a
  SIGN\_REQUEST for the key blob \<open>01\<close> over the data \<open>00\<close>.
\<close>

definition unknown_extension_frame :: bytes where
  "unknown_extension_frame = [0, 0, 0, 8, 27, 0, 0, 0, 3, 102, 111, 111]"

definition toy_host_key :: bytes where
  "toy_host_key = [0, 0, 0, 11] @ str ''ssh-ed25519'' @ [0, 0, 0, 1, 1]"

definition toy_bad_signature :: bytes where
  "toy_bad_signature = [0, 0, 0, 1, 120, 0, 0, 0, 1, 7]"

definition bad_session_bind_frame :: bytes where
  "bad_session_bind_frame =
     [0, 0, 0, 73, 27, 0, 0, 0, 24] @ str ''session-bind@openssh.com''
       @ [0, 0, 0, 20] @ toy_host_key @ [0, 0, 0, 1, 5] @ [0, 0, 0, 10] @ toy_bad_signature @ [0]"

definition toy_signature :: bytes where
  "toy_signature = [0, 0, 0, 1, 120, 0, 0, 0, 1, 5]"

definition session_bind_frame :: bytes where
  "session_bind_frame =
     [0, 0, 0, 73, 27, 0, 0, 0, 24] @ str ''session-bind@openssh.com''
       @ [0, 0, 0, 20] @ toy_host_key @ [0, 0, 0, 1, 5] @ [0, 0, 0, 10] @ toy_signature @ [0]"

definition toy_sign_request_frame :: bytes where
  "toy_sign_request_frame = [0, 0, 0, 15, 13, 0, 0, 0, 1, 1, 0, 0, 0, 1, 0, 0, 0, 0, 0]"

text \<open>
  A destination constraint that lets any user through to the host with host key
  \<open>toy_host_key\<close>, from the origin; \<open>toy_store\<close> is a key store that holds one key, with
  public blob \<open>01\<close> and that constraint.  The data of a user authentication request
  (method \<open>publickey-hostbound-v00@openssh.com\<close>) of user \<open>u\<close> for that key, bound to
  session id \<open>05\<close> and that host key, and the SIGN\_REQUEST for the key over these data.
\<close>

definition toy_host_constraint :: OpenSSHSDestinationConstraint where
  "toy_host_constraint =
     \<lparr>m_from_hop = \<lparr>hop_user = [], hop_hostname = [], hop_keys = []\<rparr>,
      m_to_hop = \<lparr>hop_user = [], hop_hostname = str ''host'',
                  hop_keys = [\<lparr>key = toy_host_key, key_is_ca = False\<rparr>]\<rparr>\<rparr>"

definition toy_store :: KeyManager where
  "toy_store = (KeyManager_new 0)\<lparr>m_keys := [toy_key [1] [toy_host_constraint]]\<rparr>"

definition toy_userauth_request :: bytes where
  "toy_userauth_request =
     [0, 0, 0, 1, 5, 50, 0, 0, 0, 1] @ str ''u'' @ [0, 0, 0, 14] @ str ''ssh-connection''
       @ [0, 0, 0, 35] @ str ''publickey-hostbound-v00@openssh.com''
       @ [1, 0, 0, 0, 11] @ str ''ssh-ed25519'' @ [0, 0, 0, 1, 1, 0, 0, 0, 20] @ toy_host_key"

definition userauth_sign_request_frame :: bytes where
  "userauth_sign_request_frame =
     [0, 0, 0, 127, 13, 0, 0, 0, 1, 1, 0, 0, 0, 113] @ toy_userauth_request @ [0, 0, 0, 0]"

text \<open>
  An ECDSA private-key blob for the curve \<open>nistp384\<close>: curve name, public point, private
  scalar.  A locked key store whose provider holds the hash of the passphrase \<open>pw\<close>.
  \<open>unlock_run\<close> makes one unlock attempt with the same passphrase at each of the given
  clock readings.
\<close>

definition nistp384_blob :: bytes where
  "nistp384_blob = [0, 0, 0, 8] @ str ''nistp384'' @ [0, 0, 0, 3, 4, 1, 2] @ [0, 0, 0, 1, 7]"

definition locked_store :: KeyManager where
  "locked_store =
     (KeyManager_new 0)\<lparr>m_locked := True, m_lock_provider := Some \<lparr>m_hash = str ''pw''\<rparr>\<rparr>"

definition unlock_run :: "Botan \<Rightarrow> bytes \<Rightarrow> int list \<Rightarrow> KeyManager \<Rightarrow> KeyManager" where
  "unlock_run bt passphrase ts km = foldl (\<lambda>km' t. snd (unlock bt t passphrase km')) km ts"

section \<open>Properties\<close>

subsection \<open>Codec\<close>

lemma ff_mask: "(0xFF::32 word) = mask 8"
  by (simp add: mask_eq_exp_minus_1)

lemma from_be32_be32:
  "from_be32 (ucast (drop_bit 24 v AND 0xFF)) (ucast (drop_bit 16 v AND 0xFF))
             (ucast (drop_bit 8 v AND 0xFF)) (ucast (v AND 0xFF)) = (v::32 word)"
  unfolding from_be32_def ff_mask
proof (rule bit_word_eqI)
  fix n :: nat
  assume n: "n < LENGTH(32)"
  consider "n < 8" | "8 \<le> n" "n < 16" | "16 \<le> n" "n < 24" | "24 \<le> n" "n < 32"
    using n by fastforce
  then show "bit (push_bit 24 (ucast (ucast (drop_bit 24 v AND mask 8 :: 32 word) :: byte)) OR
        push_bit 16 (ucast (ucast (drop_bit 16 v AND mask 8) :: byte)) OR
        push_bit 8 (ucast (ucast (drop_bit 8 v AND mask 8) :: byte)) OR
        ucast (ucast (v AND mask 8) :: byte) :: 32 word) n = bit v n"
    by cases (auto simp add: bit_simps)
qed

lemma length_be32: "length (be32 v) = 4"
  by (simp add: be32_def)

lemma readBE32_be32:
  "readBE32 \<lparr>m_data = pre @ be32 v @ rest, m_offset = length pre\<rparr>
     = Inr (v, \<lparr>m_data = pre @ be32 v @ rest, m_offset = length pre + 4\<rparr>)"
  by (simp add: readBE32_def m_length_def length_be32 nth_append)
     (simp add: be32_def from_be32_be32)

lemma unat_of_nat_len: "n < 2 ^ 32 \<Longrightarrow> unat (of_nat n :: 32 word) = n"
  by (simp add: unat_of_nat take_bit_nat_eq_self)

lemma readBlob_blob:
  assumes "length v < 2 ^ 32"
  shows "readBlob \<lparr>m_data = pre @ be32 (of_nat (length v)) @ v @ rest, m_offset = length pre\<rparr>
     = Inr (v, \<lparr>m_data = pre @ be32 (of_nat (length v)) @ v @ rest,
                m_offset = length pre + 4 + length v\<rparr>)"
  using assms
  by (simp add: readBlob_def bind_def readBE32_be32 unat_of_nat_len m_length_def length_be32)

text \<open>
  C7 (amended).  For every byte vector \<open>v\<close> with \<open>|v| + 4 \<le> 256 KiB\<close>, writing \<open>v\<close> with
  \<^verbatim>\<open>writeBlob\<close> into an empty serializer and reading the result with \<^verbatim>\<open>readBlob\<close>
  yields \<open>v\<close> again.  The four length octets count towards the serializer's limit.
\<close>

theorem blob_roundtrip:
  assumes "length v + 4 \<le> MAX_SERIALIZED_SIZE"
  shows "bind (encode_blob v) decode_blob = Inr v"
proof -
  have lt: "length v < 2 ^ 32"
    using assms by (simp add: MAX_SERIALIZED_SIZE_def)
  have enc: "encode_blob v = Inr (be32 (of_nat (length v)) @ v)"
    using assms
    by (simp add: encode_blob_def writeBlob_def writeBE32_def bind_def Serializer_new_def data_def)
  have "decode_blob ([] @ be32 (of_nat (length v)) @ v @ []) = Inr v"
    unfolding decode_blob_def Deserializer_new_def
    using readBlob_blob [OF lt, of "[]" "[]"] by (simp add: bind_def)
  then show ?thesis
    by (simp add: enc bind_def)
qed

theorem blob_roundtrip_witness:
  "length [1, 2, 3 :: byte] + 4 \<le> MAX_SERIALIZED_SIZE
   \<and> bind (encode_blob [1, 2, 3]) decode_blob = Inr [1, 2, 3]"
  using blob_roundtrip [of "[1, 2, 3]"] by (simp add: MAX_SERIALIZED_SIZE_def)

text \<open>
  C7 as stated fails: a vector of 262141 octets is shorter than 256 KiB, and
  \<^verbatim>\<open>writeBlob\<close> rejects it with \<^verbatim>\<open>std::length_error\<close>.
\<close>

theorem blob_roundtrip_counterexample:
  "length (replicate 262141 (0 :: byte)) < 256 * 1024 \<and>
   bind (encode_blob (replicate 262141 0)) decode_blob = Inl LengthError"
  by (simp add: encode_blob_def writeBlob_def bind_def Serializer_new_def MAX_SERIALIZED_SIZE_def)

subsection \<open>Hop matching\<close>

lemma matchesKey_loop_iff:
  "matchesKey_loop ks blob \<longleftrightarrow>
     (\<exists>k \<in> set (takeWhile (\<lambda>k. key k \<noteq> []) ks). \<not> key_is_ca k \<and> key k = blob)"
  by (induction ks) auto

text \<open>
  C6 (amended).  For every hop descriptor and every key blob, the hop matches the blob if
  and only if at least one entry with \<open>is_ca = false\<close> that stands before every entry
  with an empty key has a key equal to that blob; entries with \<open>is_ca = true\<close> never
  contribute a match.
\<close>

theorem matchesKey_iff:
  "matchesKey hop blob \<longleftrightarrow>
     (\<exists>k \<in> set (takeWhile (\<lambda>k. key k \<noteq> []) (hop_keys hop)). \<not> key_is_ca k \<and> key k = blob)"
  by (simp add: matchesKey_def matchesKey_loop_iff)

theorem matchesKey_iff_witness:
  "matchesKey \<lparr>hop_user = [], hop_hostname = [104],
               hop_keys = [\<lparr>key = [9], key_is_ca = True\<rparr>, \<lparr>key = [9], key_is_ca = False\<rparr>,
                           \<lparr>key = [], key_is_ca = False\<rparr>]\<rparr> [9]
   \<and> \<not> matchesKey \<lparr>hop_user = [], hop_hostname = [104],
                    hop_keys = [\<lparr>key = [9], key_is_ca = True\<rparr>]\<rparr> [9]"
  using matchesKey_iff [of "\<lparr>hop_user = [], hop_hostname = [104],
               hop_keys = [\<lparr>key = [9], key_is_ca = True\<rparr>, \<lparr>key = [9], key_is_ca = False\<rparr>,
                           \<lparr>key = [], key_is_ca = False\<rparr>]\<rparr>" "[9]"]
        matchesKey_iff [of "\<lparr>hop_user = [], hop_hostname = [104],
               hop_keys = [\<lparr>key = [9], key_is_ca = True\<rparr>]\<rparr>" "[9]"]
  by simp

text \<open>
  C6 as stated fails: the second entry of this hop is not a CA key and equals the blob,
  but the empty key before it ends the search.
\<close>

theorem matchesKey_counterexample:
  "matchesKey_spec \<lparr>hop_user = [], hop_hostname = [104],
                    hop_keys = [\<lparr>key = [], key_is_ca = False\<rparr>, \<lparr>key = [9], key_is_ca = False\<rparr>]\<rparr> [9]
   \<and> \<not> matchesKey \<lparr>hop_user = [], hop_hostname = [104],
                    hop_keys = [\<lparr>key = [], key_is_ca = False\<rparr>, \<lparr>key = [9], key_is_ca = False\<rparr>]\<rparr> [9]"
  by (simp add: matchesKey_spec_def matchesKey_def)

subsection \<open>Secure allocator\<close>

lemma deallocate_fills:
  "p \<noteq> 0 \<Longrightarrow> p \<le> a \<Longrightarrow> a < p + n * sz \<Longrightarrow> h_mem (deallocate sz p n h) a = 0x42"
  by (simp add: deallocate_def memset_def Let_def)

text \<open>
  C8.  Releasing a two-octet buffer at address 16: both payload octets hold \<open>0x42\<close>
  afterwards, not zero, and the block is no longer live.
\<close>

theorem deallocate_fill_value:
  "h_mem (deallocate 1 16 2 \<lparr>h_mem = (\<lambda>a. 7), h_live = {16}, h_locked = {(16, 2)}\<rparr>) 16 = 0x42
   \<and> h_mem (deallocate 1 16 2 \<lparr>h_mem = (\<lambda>a. 7), h_live = {16}, h_locked = {(16, 2)}\<rparr>) 17 = 0x42
   \<and> (0x42 :: byte) \<noteq> 0
   \<and> 16 \<notin> h_live (deallocate 1 16 2 \<lparr>h_mem = (\<lambda>a. 7), h_live = {16}, h_locked = {(16, 2)}\<rparr>)"
  by (simp add: deallocate_def memset_def Let_def)

subsection \<open>Key lifetime\<close>

lemma int_le_div_iff:
  fixes s a c :: int
  assumes c: "0 < c"
  shows "s \<le> a div c \<longleftrightarrow> s * c \<le> a"
proof
  assume "s \<le> a div c"
  then have "s * c \<le> (a div c) * c"
    using c by (simp add: mult_right_mono)
  also have "\<dots> \<le> a"
    using c by (metis mult.commute Euclidean_Rings.pos_mod_sign le_add_same_cancel1 mult_div_mod_eq)
  finally show "s * c \<le> a" .
next
  assume "s * c \<le> a"
  then have "(s * c) div c \<le> a div c"
    using c by (rule zdiv_mono1)
  then show "s \<le> a div c"
    using c by simp
qed

lemma duration_cast_seconds_ge:
  assumes "0 < s"
  shows "s \<le> duration_cast_seconds ns \<longleftrightarrow> seconds s \<le> ns"
proof (cases "0 \<le> ns")
  case True
  then have "duration_cast_seconds ns = ns div 1000000000"
    by (cases "ns = 0") (simp_all add: duration_cast_seconds_def)
  then show ?thesis
    by (simp add: seconds_def int_le_div_iff)
next
  case False
  then have "duration_cast_seconds ns \<le> 0"
    by (simp add: duration_cast_seconds_def sgn_if)
  moreover have "0 < seconds s"
    using assms by (simp add: seconds_def)
  ultimately show ?thesis
    using False assms by linarith
qed

text \<open>
  C10.  \<^verbatim>\<open>setLifetime(s)\<close> called at time \<open>now\<close> stores \<open>s\<close> and sets the added-at time
  to \<open>now\<close>, whatever an earlier call had stored; afterwards the key is expired at time
  \<open>later\<close> exactly when \<open>s\<close> is not zero and at least \<open>s\<close> seconds lie between \<open>now\<close> and
  \<open>later\<close>.
\<close>

theorem setLifetime_expired:
  "m_added_time (setLifetime now s k) = now
   \<and> m_lifetime_seconds (setLifetime now s k) = s
   \<and> setLifetime now s (setLifetime now0 s0 k) = setLifetime now s k
   \<and> (expired later (setLifetime now s k) \<longleftrightarrow> s \<noteq> 0 \<and> seconds (uint s) \<le> later - now)"
proof -
  have "expired later (setLifetime now s k) \<longleftrightarrow> s \<noteq> 0 \<and> seconds (uint s) \<le> later - now"
  proof (cases "s = 0")
    case True
    then show ?thesis by (simp add: expired_def setLifetime_def)
  next
    case False
    then have "0 < uint s"
      by (simp add: order_less_le uint_0_iff)
    then show ?thesis
      using False by (simp add: expired_def setLifetime_def duration_cast_seconds_ge)
  qed
  then show ?thesis
    by (simp add: setLifetime_def)
qed

theorem setLifetime_expired_witness:
  "expired (seconds 107) (setLifetime (seconds 100) 5 (setLifetime 0 3 (toy_key [1] [])))
   \<and> \<not> expired (seconds 104) (setLifetime (seconds 100) 5 (setLifetime 0 3 (toy_key [1] [])))"
  using setLifetime_expired [of "seconds 100" 5 "setLifetime 0 3 (toy_key [1] [])" 0 3 "seconds 107"]
        setLifetime_expired [of "seconds 100" 5 "setLifetime 0 3 (toy_key [1] [])" 0 3 "seconds 104"]
  by (simp add: seconds_def)

subsection \<open>Permit decision\<close>

lemma permitted_loop_last_forwarded:
  "bs \<noteq> [] \<Longrightarrow> forwarded (last bs) \<Longrightarrow> user \<noteq> []
     \<Longrightarrow> \<not> fst (permitted_loop k bs from_key user mi)"
proof (induction bs arbitrary: from_key mi)
  case Nil
  then show ?case by simp
next
  case (Cons s rest)
  show ?case
  proof (cases "rest = []")
    case True
    with Cons.prems show ?thesis by simp
  next
    case False
    with Cons show ?thesis
      by (auto simp add: Let_def split: prod.splits bool.splits)
  qed
qed

lemma permitted_loop_signing_bind:
  "b \<in> set (butlast bs) \<Longrightarrow> \<not> forwarded b
     \<Longrightarrow> \<not> fst (permitted_loop k bs from_key user mi)"
proof (induction bs arbitrary: from_key mi)
  case Nil
  then show ?case by simp
next
  case (Cons s rest)
  show ?case
  proof (cases "rest = []")
    case True
    with Cons.prems show ?thesis by simp
  next
    case False
    with Cons show ?thesis
      by (auto simp add: Let_def split: prod.splits bool.splits)
  qed
qed

text \<open>
  C1 (amended).  The first three clauses of the permit decision hold in the order of the
  decision list, each for the inputs the earlier clauses leave: a key without
  destination constraints is permitted; otherwise a session whose \<open>binding_failed\<close> flag
  is set is refused; otherwise a session without bindings is permitted.  A key that has
  destination constraints is refused if the last binding is forwarded and the user is not
  empty, and refused if any binding but the last is not forwarded.
\<close>

theorem permitted_decision:
  "(m_dest_constraints k = [] \<longrightarrow> fst (permitted k ses user mi))
   \<and> (m_dest_constraints k \<noteq> [] \<and> m_binding_failed ses \<longrightarrow> \<not> fst (permitted k ses user mi))
   \<and> (m_dest_constraints k \<noteq> [] \<and> \<not> m_binding_failed ses \<and> m_session_bindings ses = []
        \<longrightarrow> fst (permitted k ses user mi))
   \<and> (m_dest_constraints k \<noteq> [] \<and> m_session_bindings ses \<noteq> []
        \<and> forwarded (last (m_session_bindings ses)) \<and> user \<noteq> []
        \<longrightarrow> \<not> fst (permitted k ses user mi))
   \<and> (m_dest_constraints k \<noteq> []
        \<and> (\<exists>b \<in> set (butlast (m_session_bindings ses)). \<not> forwarded b)
        \<longrightarrow> \<not> fst (permitted k ses user mi))"
proof (intro conjI impI)
  assume "m_dest_constraints k = []"
  then show "fst (permitted k ses user mi)" by (simp add: permitted_def)
next
  assume "m_dest_constraints k \<noteq> [] \<and> m_binding_failed ses"
  then show "\<not> fst (permitted k ses user mi)" by (simp add: permitted_def)
next
  assume "m_dest_constraints k \<noteq> [] \<and> \<not> m_binding_failed ses \<and> m_session_bindings ses = []"
  then show "fst (permitted k ses user mi)" by (simp add: permitted_def)
next
  assume a: "m_dest_constraints k \<noteq> [] \<and> m_session_bindings ses \<noteq> []
        \<and> forwarded (last (m_session_bindings ses)) \<and> user \<noteq> []"
  then have "\<not> fst (permitted_loop k (m_session_bindings ses) [] user mi)"
    by (simp add: permitted_loop_last_forwarded)
  with a show "\<not> fst (permitted k ses user mi)"
    by (auto simp add: permitted_def split: prod.splits bool.splits)
next
  assume a: "m_dest_constraints k \<noteq> []
        \<and> (\<exists>b \<in> set (butlast (m_session_bindings ses)). \<not> forwarded b)"
  then have ne: "m_session_bindings ses \<noteq> []" by auto
  from a have "\<not> fst (permitted_loop k (m_session_bindings ses) [] user mi)"
    by (auto simp add: permitted_loop_signing_bind)
  with a ne show "\<not> fst (permitted k ses user mi)"
    by (auto simp add: permitted_def split: prod.splits bool.splits)
qed


theorem permitted_decision_witness:
  "fst (permitted (toy_key [1] []) (Session_new\<lparr>m_binding_failed := True\<rparr>) (str ''u'') None)
   \<and> \<not> fst (permitted (toy_key [1] [toy_constraint]) (Session_new\<lparr>m_binding_failed := True\<rparr>) (str ''u'') None)
   \<and> fst (permitted (toy_key [1] [toy_constraint]) Session_new (str ''u'') None)
   \<and> \<not> fst (permitted (toy_key [1] [toy_constraint])
            (Session_new\<lparr>m_session_bindings := [\<lparr>host_key = [9], session_id = [5], forwarded = True\<rparr>]\<rparr>)
            (str ''u'') None)
   \<and> \<not> fst (permitted (toy_key [1] [toy_constraint])
            (Session_new\<lparr>m_session_bindings := [\<lparr>host_key = [9], session_id = [5], forwarded = False\<rparr>,
                                                 \<lparr>host_key = [9], session_id = [6], forwarded = False\<rparr>]\<rparr>)
            [] None)"
  using permitted_decision [of "toy_key [1] []" "Session_new\<lparr>m_binding_failed := True\<rparr>" "str ''u''" None]
        permitted_decision [of "toy_key [1] [toy_constraint]" "Session_new\<lparr>m_binding_failed := True\<rparr>" "str ''u''" None]
        permitted_decision [of "toy_key [1] [toy_constraint]" Session_new "str ''u''" None]
        permitted_decision [of "toy_key [1] [toy_constraint]"
            "Session_new\<lparr>m_session_bindings := [\<lparr>host_key = [9], session_id = [5], forwarded = True\<rparr>]\<rparr>"
            "str ''u''" None]
        permitted_decision [of "toy_key [1] [toy_constraint]"
            "Session_new\<lparr>m_session_bindings := [\<lparr>host_key = [9], session_id = [5], forwarded = False\<rparr>,
                                                 \<lparr>host_key = [9], session_id = [6], forwarded = False\<rparr>]\<rparr>"
            "[]" None]
  by (simp add: toy_key_def KeyBase_new_def Session_new_def str_def)

text \<open>
  C1 as stated fails: its second and third clause do not hold of every key and session.
  On a session whose flag is set a key without destination constraints is permitted; and
  a session without bindings refuses a key that has destination constraints when its
  flag is set.  The session is the one a failed session binding leaves.
\<close>

theorem permitted_counterexample:
  "m_binding_failed (Session_new\<lparr>m_binding_failed := True\<rparr>)
   \<and> fst (permitted (toy_key [1] []) (Session_new\<lparr>m_binding_failed := True\<rparr>) (str ''u'') None)
   \<and> m_session_bindings (Session_new\<lparr>m_binding_failed := True\<rparr>) = []
   \<and> \<not> fst (permitted (toy_key [1] [toy_constraint]) (Session_new\<lparr>m_binding_failed := True\<rparr>)
            (str ''u'') None)"
  by (simp add: permitted_def toy_key_def KeyBase_new_def Session_new_def)

subsection \<open>Replies and frames\<close>

lemma be32_1: "be32 1 = [0, 0, 0, 1]"
  by (simp add: be32_def)

lemma SimpleMessage_serialize_eq: "SimpleMessage_serialize ty = Inr [0, 0, 0, 1, ty]"
  by (simp add: SimpleMessage_serialize_def Message_serialize_def writeBE32_def writeByte_def
      bind_def Serializer_new_def MAX_SERIALIZED_SIZE_def be32_1)

lemma failureResponse_eq:
  "failureResponse ses = ses\<lparr>sent := sent ses @ [[0, 0, 0, 1, SSH_AGENT_FAILURE]]\<rparr>"
  by (simp add: failureResponse_def respond_def SimpleMessage_serialize_eq send_def)

lemma successResponse_eq:
  "successResponse ses = ses\<lparr>sent := sent ses @ [[0, 0, 0, 1, SSH_AGENT_SUCCESS]]\<rparr>"
  by (simp add: successResponse_def respond_def SimpleMessage_serialize_eq send_def)

lemma Message_new_eq:
  "Message_new dat =
     (if 5 \<le> length dat then Inr \<lparr>msg_type = dat ! 4, msg_data = dat\<rparr> else Inl OutOfRange)"
  by (simp add: Message_new_def Message_deserialize_def readBE32_def readByte_def bind_def
      Deserializer_new_def m_length_def)

text \<open>The read operations throw nothing but \<^verbatim>\<open>std::out_of_range\<close>.\<close>

lemma readBE32_Inl: "readBE32 d = Inl e \<Longrightarrow> e = OutOfRange"
  by (simp add: readBE32_def split: if_splits)

lemma readByte_Inl: "readByte d = Inl e \<Longrightarrow> e = OutOfRange"
  by (simp add: readByte_def split: if_splits)

lemma readBlob_Inl: "readBlob d = Inl e \<Longrightarrow> e = OutOfRange"
  by (auto simp add: readBlob_def bind_def readBE32_def split: if_splits sum.splits)

lemma bind_Inl: "bind r f = Inl e \<longleftrightarrow> r = Inl e \<or> (\<exists>x. r = Inr x \<and> f x = Inl e)"
  by (cases r) (simp_all add: bind_def)

lemma bind_Inr: "bind r f = Inr y \<longleftrightarrow> (\<exists>x. r = Inr x \<and> f x = Inr y)"
  by (cases r) (simp_all add: bind_def)


lemma Message_deserialize_eq:
  "5 \<le> length dat \<Longrightarrow>
     Message_deserialize (Deserializer_new dat) = Inr (dat ! 4, \<lparr>m_data = dat, m_offset = 5\<rparr>)"
  by (simp add: Message_deserialize_def readBE32_def readByte_def bind_def
      Deserializer_new_def m_length_def)

lemmas eval_defs =
  unknown_extension_frame_def bad_session_bind_frame_def toy_sign_request_frame_def
  toy_host_key_def toy_bad_signature_def str_def
  readBE32_def readByte_def readBlob_def readString_def readMPInt_def strip_mpint_def
  Deserializer_new_def m_length_def from_be32_def bind_def
  toy_config_def toy_botan_def toy_embedder_def initializeExtensions_def
  SSH_AGENTC_EXTENSION_def SSH_AGENTC_SIGN_REQUEST_def SSH_AGENT_FAILURE_def

subsection \<open>Lock gate\<close>

lemma processReal_locked:
  assumes "m_locked km" and "5 \<le> length dat" and "dat ! 4 \<noteq> SSH_AGENTC_UNLOCK"
  shows "processReal cfg now dat km ses =
           Inr (False, km, ses\<lparr>sent := sent ses @ [[0, 0, 0, 1, SSH_AGENT_FAILURE]]\<rparr>)"
  using assms by (simp add: processReal_def Message_new_eq bind_def failureResponse_eq)

text \<open>
  The same through \<^verbatim>\<open>process\<close>, where the message is what the session has kept
  followed by the new octets.
\<close>

lemma process_locked:
  assumes "m_locked km" and "5 \<le> length (m_temp_buffer ses @ dat)"
    and "(m_temp_buffer ses @ dat) ! 4 \<noteq> SSH_AGENTC_UNLOCK"
  shows "process cfg now dat km ses =
           Inr (False, km, ses\<lparr>sent := sent ses @ [[0, 0, 0, 1, SSH_AGENT_FAILURE]],
                                m_temp_buffer := []\<rparr>)"
proof (cases "m_temp_buffer ses = []")
  case True
  with assms show ?thesis
    by (simp add: process_def processReal_locked)
next
  case False
  with assms show ?thesis
    by (simp add: process_def Let_def processReal_locked bind_def)
qed

text \<open>
  C3.  While the key store is locked, \<^verbatim>\<open>processReal\<close> answers every message whose type
  octet is not UNLOCK with FAILURE (the frame \<open>00 00 00 01 05\<close>) and returns \<^verbatim>\<open>false\<close>;
  the key store is as before, and the session differs only in the reply it has sent.
\<close>

theorem locked_gate:
  assumes "m_locked km" and "5 \<le> length dat" and "dat ! 4 \<noteq> SSH_AGENTC_UNLOCK"
  shows "processReal cfg now dat km ses =
           Inr (False, km, ses\<lparr>sent := sent ses @ [[0, 0, 0, 1, SSH_AGENT_FAILURE]]\<rparr>)"
  using assms by (rule processReal_locked)

theorem locked_gate_witness:
  "m_locked locked_store \<and> 5 \<le> length toy_sign_request_frame
   \<and> toy_sign_request_frame ! 4 \<noteq> SSH_AGENTC_UNLOCK
   \<and> processReal toy_config 0 toy_sign_request_frame locked_store Session_new =
       Inr (False, locked_store,
            Session_new\<lparr>sent := sent Session_new @ [[0, 0, 0, 1, SSH_AGENT_FAILURE]]\<rparr>)"
proof -
  have h: "m_locked locked_store" "5 \<le> length toy_sign_request_frame"
    "toy_sign_request_frame ! 4 \<noteq> SSH_AGENTC_UNLOCK"
    by (simp_all add: locked_store_def KeyManager_new_def toy_sign_request_frame_def
        SSH_AGENTC_UNLOCK_def)
  from locked_gate [OF h, of toy_config 0 Session_new] h show ?thesis
    by simp
qed

subsection \<open>Session binding failures\<close>


lemma UserAuthRequestMessage_new_Inl:
  "UserAuthRequestMessage_new dat = Inl e \<Longrightarrow> is_exception e"
  unfolding UserAuthRequestMessage_new_def readString_def
  by (auto simp add: bind_Inl is_exception_def split: if_splits dest!: readBlob_Inl readByte_Inl)

lemma check_dest_constraints_binding_failed:
  assumes "m_dest_constraints k \<noteq> []" and "m_binding_failed ses"
  shows "\<exists>e. check_dest_constraints k sm ses = (Some e, ses) \<and> is_exception e"
proof (cases "m_session_bindings ses = []")
  case True
  with assms show ?thesis
    by (simp add: check_dest_constraints_def is_exception_def)
next
  case False
  show ?thesis
  proof (cases "UserAuthRequestMessage_new (sr_data_sign sm)")
    case (Inl e)
    with assms False show ?thesis
      by (simp add: check_dest_constraints_def UserAuthRequestMessage_new_Inl)
  next
    case (Inr ua)
    with assms False show ?thesis
      by (simp add: check_dest_constraints_def permitted_def is_exception_def)
  qed
qed

lemma processSignRequest_binding_failed:
  assumes "m_binding_failed ses"
    and "SignRequestMessage_new msg = Inr sm"
    and "getKey km (sr_key_blob sm) = Some k"
    and "m_dest_constraints k \<noteq> []"
  shows "processSignRequest cfg msg km ses = Inr (False, km, failureResponse ses)"
proof -
  obtain e where "check_dest_constraints k sm ses = (Some e, ses)" and "is_exception e"
    using check_dest_constraints_binding_failed [OF assms(4) assms(1)] by blast
  with assms show ?thesis
    by (simp add: processSignRequest_def caught_def)
qed


text \<open>
  No handler resets \<open>m_binding_failed\<close>: every handler but the one for extensions
  leaves the flag as it is, and that one can only set it.
\<close>

lemma caught_sticky:
  "caught e km ses = Inr (r, km', ses') \<Longrightarrow> m_binding_failed ses' = m_binding_failed ses"
  by (auto simp add: caught_def failureResponse_eq split: if_splits)

lemma processAddIdentity_sticky:
  "processAddIdentity cfg now msg km ses = Inr (r, km', ses')
     \<Longrightarrow> m_binding_failed ses' = m_binding_failed ses"
  by (auto simp add: processAddIdentity_def successResponse_eq
      split: sum.splits prod.splits option.splits dest: caught_sticky)

lemma processRemoveIdentity_sticky:
  "processRemoveIdentity cfg msg km ses = Inr (r, km', ses')
     \<Longrightarrow> m_binding_failed ses' = m_binding_failed ses"
  by (auto simp add: processRemoveIdentity_def successResponse_eq
      split: sum.splits dest: caught_sticky)

lemma processRemoveAllIdentity_sticky:
  "processRemoveAllIdentity cfg km ses = Inr (r, km', ses')
     \<Longrightarrow> m_binding_failed ses' = m_binding_failed ses"
  by (auto simp add: processRemoveAllIdentity_def successResponse_eq)

lemma check_dest_constraints_sticky:
  "check_dest_constraints k sm ses = (r, ses1) \<Longrightarrow> m_binding_failed ses1 = m_binding_failed ses"
  by (auto simp add: check_dest_constraints_def Let_def
      split: if_splits sum.splits prod.splits option.splits)

lemma processSignRequest_sticky:
  assumes "processSignRequest cfg msg km ses = Inr (r, km', ses')"
  shows "m_binding_failed ses' = m_binding_failed ses"
proof (cases "SignRequestMessage_new msg")
  case (Inl e)
  with assms show ?thesis
    by (auto simp add: processSignRequest_def dest: caught_sticky)
next
  case (Inr sm)
  show ?thesis
  proof (cases "getKey km (sr_key_blob sm)")
    case None
    with assms Inr show ?thesis
      by (auto simp add: processSignRequest_def dest: caught_sticky)
  next
    case (Some k)
    obtain c ses1 where c: "check_dest_constraints k sm ses = (c, ses1)"
      by (cases "check_dest_constraints k sm ses")
    then have s1: "m_binding_failed ses1 = m_binding_failed ses"
      by (rule check_dest_constraints_sticky)
    from assms Inr Some c s1 show ?thesis
      by (auto simp add: processSignRequest_def failureResponse_eq send_def Let_def
          split: option.splits if_splits sum.splits dest: caught_sticky)
  qed
qed

lemma processRequestIdentities_sticky:
  "processRequestIdentities cfg km ses = Inr ses'
     \<Longrightarrow> m_binding_failed ses' = m_binding_failed ses"
  by (auto simp add: processRequestIdentities_def bind_Inr send_def)

lemma processExtension_sticky:
  "processExtension cfg msg km ses = Inr (r, km', ses') \<Longrightarrow> m_binding_failed ses
     \<Longrightarrow> m_binding_failed ses'"
  by (auto simp add: processExtension_def processExtension_try_def bind_def failureResponse_eq
      successResponse_eq
      split: sum.splits if_splits option.splits Extension.splits)

lemma processLock_sticky:
  "processLock cfg msg km ses = Inr (r, km', ses')
     \<Longrightarrow> m_binding_failed ses' = m_binding_failed ses"
  by (auto simp add: processLock_def successResponse_eq
      split: sum.splits prod.splits option.splits dest: caught_sticky)

lemma processUnlock_sticky:
  "processUnlock cfg now msg km ses = Inr (r, km', ses')
     \<Longrightarrow> m_binding_failed ses' = m_binding_failed ses"
  by (auto simp add: processUnlock_def successResponse_eq
      split: sum.splits prod.splits option.splits dest: caught_sticky)

text \<open>
  What \<^verbatim>\<open>processReal\<close> has done when it returns: the answer of the lock gate, one of the
  handlers, or the answer to an unknown message type.
\<close>

lemma processReal_handlers:
  assumes "processReal cfg now dat km ses = Inr (r, km', ses')"
  shows "\<exists>msg.
        (m_locked km \<and> msg_type msg \<noteq> SSH_AGENTC_UNLOCK \<and> ses' = failureResponse ses)
      \<or> processAddIdentity cfg now msg km ses = Inr (r, km', ses')
      \<or> processRemoveIdentity cfg msg km ses = Inr (r, km', ses')
      \<or> processRemoveAllIdentity cfg km ses = Inr (r, km', ses')
      \<or> (\<exists>r1 ses1. processSignRequest cfg msg km
                        (ses\<lparr>m_confirmation_thread := True, m_waiting_for_confirmation := True\<rparr>)
                        = Inr (r1, km', ses1)
                    \<and> ses' = ses1\<lparr>m_waiting_for_confirmation := False,
                                   m_confirmation_thread := m_async_operation ses1\<rparr>)
      \<or> (\<exists>ses1. processRequestIdentities cfg km
                        (ses\<lparr>m_key_selection_thread := True, m_waiting_for_key_selection := True\<rparr>)
                        = Inr ses1
                    \<and> ses' = ses1\<lparr>m_waiting_for_key_selection := False,
                                   m_key_selection_thread := m_async_operation ses1\<rparr>)
      \<or> processExtension cfg msg km ses = Inr (r, km', ses')
      \<or> processLock cfg msg km ses = Inr (r, km', ses')
      \<or> processUnlock cfg now msg km ses = Inr (r, km', ses')
      \<or> ses' = failureResponse ses"
proof -
  obtain msg where msg: "Message_new dat = Inr msg"
    using assms by (auto simp add: processReal_def bind_Inr)
  from assms msg
  have "(m_locked km \<and> msg_type msg \<noteq> SSH_AGENTC_UNLOCK \<and> ses' = failureResponse ses)
      \<or> processAddIdentity cfg now msg km ses = Inr (r, km', ses')
      \<or> processRemoveIdentity cfg msg km ses = Inr (r, km', ses')
      \<or> processRemoveAllIdentity cfg km ses = Inr (r, km', ses')
      \<or> (\<exists>r1 ses1. processSignRequest cfg msg km
                        (ses\<lparr>m_confirmation_thread := True, m_waiting_for_confirmation := True\<rparr>)
                        = Inr (r1, km', ses1)
                    \<and> ses' = ses1\<lparr>m_waiting_for_confirmation := False,
                                   m_confirmation_thread := m_async_operation ses1\<rparr>)
      \<or> (\<exists>ses1. processRequestIdentities cfg km
                        (ses\<lparr>m_key_selection_thread := True, m_waiting_for_key_selection := True\<rparr>)
                        = Inr ses1
                    \<and> ses' = ses1\<lparr>m_waiting_for_key_selection := False,
                                   m_key_selection_thread := m_async_operation ses1\<rparr>)
      \<or> processExtension cfg msg km ses = Inr (r, km', ses')
      \<or> processLock cfg msg km ses = Inr (r, km', ses')
      \<or> processUnlock cfg now msg km ses = Inr (r, km', ses')
      \<or> ses' = failureResponse ses"
    unfolding processReal_def
    by (simp add: bind_def split: if_splits sum.splits prod.splits)
  then show ?thesis ..
qed

lemma processReal_sticky:
  assumes "processReal cfg now dat km ses = Inr (r, km', ses')" and "m_binding_failed ses"
  shows "m_binding_failed ses'"
proof -
  from processReal_handlers [OF assms(1)] obtain msg where
       "(m_locked km \<and> msg_type msg \<noteq> SSH_AGENTC_UNLOCK \<and> ses' = failureResponse ses)
      \<or> processAddIdentity cfg now msg km ses = Inr (r, km', ses')
      \<or> processRemoveIdentity cfg msg km ses = Inr (r, km', ses')
      \<or> processRemoveAllIdentity cfg km ses = Inr (r, km', ses')
      \<or> (\<exists>r1 ses1. processSignRequest cfg msg km
                        (ses\<lparr>m_confirmation_thread := True, m_waiting_for_confirmation := True\<rparr>)
                        = Inr (r1, km', ses1)
                    \<and> ses' = ses1\<lparr>m_waiting_for_confirmation := False,
                                   m_confirmation_thread := m_async_operation ses1\<rparr>)
      \<or> (\<exists>ses1. processRequestIdentities cfg km
                        (ses\<lparr>m_key_selection_thread := True, m_waiting_for_key_selection := True\<rparr>)
                        = Inr ses1
                    \<and> ses' = ses1\<lparr>m_waiting_for_key_selection := False,
                                   m_key_selection_thread := m_async_operation ses1\<rparr>)
      \<or> processExtension cfg msg km ses = Inr (r, km', ses')
      \<or> processLock cfg msg km ses = Inr (r, km', ses')
      \<or> processUnlock cfg now msg km ses = Inr (r, km', ses')
      \<or> ses' = failureResponse ses" ..
  then show ?thesis
  proof (elim disjE exE conjE)
    assume "ses' = failureResponse ses"
    with assms(2) show ?thesis by (simp add: failureResponse_eq)
  next
    assume "processAddIdentity cfg now msg km ses = Inr (r, km', ses')"
    with assms(2) show ?thesis by (simp add: processAddIdentity_sticky)
  next
    assume "processRemoveIdentity cfg msg km ses = Inr (r, km', ses')"
    with assms(2) show ?thesis by (simp add: processRemoveIdentity_sticky)
  next
    assume "processRemoveAllIdentity cfg km ses = Inr (r, km', ses')"
    with assms(2) show ?thesis by (simp add: processRemoveAllIdentity_sticky)
  next
    fix r1 ses1
    assume "processSignRequest cfg msg km
              (ses\<lparr>m_confirmation_thread := True, m_waiting_for_confirmation := True\<rparr>)
            = Inr (r1, km', ses1)"
      and "ses' = ses1\<lparr>m_waiting_for_confirmation := False,
                        m_confirmation_thread := m_async_operation ses1\<rparr>"
    with assms(2) show ?thesis by (simp add: processSignRequest_sticky)
  next
    fix ses1
    assume "processRequestIdentities cfg km
              (ses\<lparr>m_key_selection_thread := True, m_waiting_for_key_selection := True\<rparr>) = Inr ses1"
      and "ses' = ses1\<lparr>m_waiting_for_key_selection := False,
                        m_key_selection_thread := m_async_operation ses1\<rparr>"
    with assms(2) show ?thesis by (simp add: processRequestIdentities_sticky)
  next
    assume "processExtension cfg msg km ses = Inr (r, km', ses')"
    with assms(2) show ?thesis by (simp add: processExtension_sticky)
  next
    assume "processLock cfg msg km ses = Inr (r, km', ses')"
    with assms(2) show ?thesis by (simp add: processLock_sticky)
  next
    assume "processUnlock cfg now msg km ses = Inr (r, km', ses')"
    with assms(2) show ?thesis by (simp add: processUnlock_sticky)
  next
    assume "ses' = failureResponse ses"
    with assms(2) show ?thesis by (simp add: failureResponse_eq)
  qed
qed

lemma process_sticky:
  assumes "process cfg now dat km ses = Inr (r, km', ses')" and "m_binding_failed ses"
  shows "m_binding_failed ses'"
proof (cases "m_temp_buffer ses = []")
  case True
  with assms show ?thesis
    by (auto simp add: process_def split: if_splits dest: processReal_sticky)
next
  case False
  with assms obtain r1 ses1 where
    "processReal cfg now (m_temp_buffer ses @ dat) km (ses\<lparr>m_temp_buffer := m_temp_buffer ses @ dat\<rparr>)
       = Inr (r1, km', ses1)" and "ses' = ses1\<lparr>m_temp_buffer := []\<rparr>"
    by (auto simp add: process_def Let_def bind_Inr)
  with assms(2) show ?thesis
    by (auto dest: processReal_sticky)
qed

text \<open>Dispatch of the extension and sign requests, and what raises in the extension path.\<close>

lemma processReal_extension:
  assumes "\<not> m_locked km" and "5 \<le> length dat" and "dat ! 4 = SSH_AGENTC_EXTENSION"
  shows "processReal cfg now dat km ses =
           processExtension cfg \<lparr>msg_type = SSH_AGENTC_EXTENSION, msg_data = dat\<rparr> km ses"
  using assms
  by (simp add: processReal_def Message_new_eq bind_def SSH_AGENTC_EXTENSION_def
      SSH_AGENTC_ADD_IDENTITY_def SSH_AGENTC_ADD_IDENTITY_CONSTRAINED_def
      SSH_AGENTC_REMOVE_IDENTITY_def SSH_AGENTC_REMOVE_ALL_IDENTITIES_def
      SSH_AGENTC_SIGN_REQUEST_def SSH_AGENTC_REQUEST_IDENTITIES_def)

lemma processReal_sign_request:
  assumes "\<not> m_locked km" and "5 \<le> length dat" and "dat ! 4 = SSH_AGENTC_SIGN_REQUEST"
    and "\<not> m_waiting_for_confirmation ses" and "\<not> m_confirmation_thread ses"
  shows "processReal cfg now dat km ses =
           (case processSignRequest cfg \<lparr>msg_type = SSH_AGENTC_SIGN_REQUEST, msg_data = dat\<rparr> km
                   (ses\<lparr>m_confirmation_thread := True, m_waiting_for_confirmation := True\<rparr>) of
              Inl e \<Rightarrow> Inl (thread_exit e)
            | Inr (r, km1, ses1) \<Rightarrow>
                Inr (True, km1, ses1\<lparr>m_waiting_for_confirmation := False,
                                     m_confirmation_thread := m_async_operation ses1\<rparr>))"
  using assms
  by (simp add: processReal_def Message_new_eq bind_def SSH_AGENTC_UNLOCK_def
      SSH_AGENTC_ADD_IDENTITY_def SSH_AGENTC_ADD_IDENTITY_CONSTRAINED_def
      SSH_AGENTC_REMOVE_IDENTITY_def SSH_AGENTC_REMOVE_ALL_IDENTITIES_def
      SSH_AGENTC_SIGN_REQUEST_def)


lemma processExtension_raise:
  assumes "ExtensionMessage_new (botan cfg) (factory cfg) msg = Inl e" and "is_exception e"
  shows "processExtension cfg msg km ses =
           Inr (False, km, ses\<lparr>m_binding_failed := True, m_session_bindings := [],
                                sent := sent ses @ [[0, 0, 0, 1, SSH_AGENT_FAILURE]]\<rparr>)"
  using assms
  by (simp add: processExtension_def processExtension_try_def bind_def failureResponse_eq)

lemma createPubKey_Inl: "createPubKey bt ty blob = Inl e \<Longrightarrow> is_exception e"
  unfolding createPubKey_def ED25519Pub_def ED448Pub_def RSAPub_def ECDSAPub_def readString_def
    readMPInt_def botan_check_def
  by (auto simp add: bind_Inl is_exception_def split: if_splits option.splits
      dest!: readBlob_Inl readBE32_Inl)

lemma OpenSSHSessionBind_bad_signature:
  assumes "readBlob d = Inr (hk, d1)" and "readBlob d1 = Inr (sid, d2)"
    and "readBlob d2 = Inr (sig, d3)" and "readByte d3 = Inr (fwd, d4)"
    and "readString (Deserializer_new hk) = Inr (kt, dh)" and "readBlob dh = Inr (bk, dh')"
    and "createPubKey bt kt hk = Inr pk"
    and "sig \<noteq> []" and "verify_message bt pk sid sig = Inr False"
  shows "\<exists>e. OpenSSHSessionBind_deserialize bt d = Inl e \<and> is_exception e"
proof (cases "bind (readString (Deserializer_new sig)) (\<lambda>(sig_type, d_sig). readBlob d_sig)")
  case (Inl e)
  then have "e = OutOfRange"
    by (auto simp add: bind_Inl readString_def dest: readBlob_Inl)
  with Inl assms show ?thesis
    by (auto simp add: OpenSSHSessionBind_deserialize_def bind_def is_exception_def
        split: sum.splits prod.splits)
next
  case (Inr x)
  with assms show ?thesis
    by (auto simp add: OpenSSHSessionBind_deserialize_def bind_def is_exception_def
        split: sum.splits prod.splits)
qed

lemma ExtensionMessage_new_session_bind_raise:
  assumes "5 \<le> length dat"
    and "readString \<lparr>m_data = dat, m_offset = 5\<rparr> = Inr (ext_name, d)"
    and "m_message_extension_creators fac ext_name = Some CreateSessionBind"
    and "OpenSSHSessionBind_deserialize bt d = Inl e"
  shows "ExtensionMessage_new bt fac \<lparr>msg_type = SSH_AGENTC_EXTENSION, msg_data = dat\<rparr> = Inl e"
  using assms
  by (auto simp add: ExtensionMessage_new_def Message_deserialize_eq bind_def
      createMessageExtension_def Extension_deserialize_def)

lemma ExtensionMessage_new_unknown:
  assumes "5 \<le> length dat"
    and "readString \<lparr>m_data = dat, m_offset = 5\<rparr> = Inr (ext_name, d)"
    and "m_message_extension_creators fac ext_name = None"
  shows "ExtensionMessage_new bt fac \<lparr>msg_type = SSH_AGENTC_EXTENSION, msg_data = dat\<rparr>
           = Inl (RuntimeError ''ExtensionFactory: unknown message extension'')"
  using assms
  by (auto simp add: ExtensionMessage_new_def Message_deserialize_eq bind_def
      createMessageExtension_def)

text \<open>
  The handlers leave alone what the sign request's thread goes by: the waiting flag, the
  mode of the session and the thread member.
\<close>

lemma caught_threads:
  "caught e km ses = Inr (r, km', ses')
     \<Longrightarrow> m_waiting_for_confirmation ses' = m_waiting_for_confirmation ses
       \<and> m_async_operation ses' = m_async_operation ses
       \<and> m_confirmation_thread ses' = m_confirmation_thread ses"
  by (auto simp add: caught_def failureResponse_eq split: if_splits)

lemma processAddIdentity_threads:
  "processAddIdentity cfg now msg km ses = Inr (r, km', ses')
     \<Longrightarrow> m_waiting_for_confirmation ses' = m_waiting_for_confirmation ses
       \<and> m_async_operation ses' = m_async_operation ses
       \<and> m_confirmation_thread ses' = m_confirmation_thread ses"
  by (auto simp add: processAddIdentity_def successResponse_eq
      split: sum.splits prod.splits option.splits dest: caught_threads)

lemma processRemoveIdentity_threads:
  "processRemoveIdentity cfg msg km ses = Inr (r, km', ses')
     \<Longrightarrow> m_waiting_for_confirmation ses' = m_waiting_for_confirmation ses
       \<and> m_async_operation ses' = m_async_operation ses
       \<and> m_confirmation_thread ses' = m_confirmation_thread ses"
  by (auto simp add: processRemoveIdentity_def successResponse_eq
      split: sum.splits dest: caught_threads)

lemma processRemoveAllIdentity_threads:
  "processRemoveAllIdentity cfg km ses = Inr (r, km', ses')
     \<Longrightarrow> m_waiting_for_confirmation ses' = m_waiting_for_confirmation ses
       \<and> m_async_operation ses' = m_async_operation ses
       \<and> m_confirmation_thread ses' = m_confirmation_thread ses"
  by (auto simp add: processRemoveAllIdentity_def successResponse_eq)

lemma check_dest_constraints_threads:
  "check_dest_constraints k sm ses = (r, ses')
     \<Longrightarrow> m_waiting_for_confirmation ses' = m_waiting_for_confirmation ses
       \<and> m_async_operation ses' = m_async_operation ses
       \<and> m_confirmation_thread ses' = m_confirmation_thread ses"
  by (auto simp add: check_dest_constraints_def Let_def
      split: if_splits sum.splits prod.splits option.splits)

lemma processSignRequest_threads:
  assumes "processSignRequest cfg msg km ses = Inr (r, km', ses')"
  shows "m_waiting_for_confirmation ses' = m_waiting_for_confirmation ses
       \<and> m_async_operation ses' = m_async_operation ses
       \<and> m_confirmation_thread ses' = m_confirmation_thread ses"
proof (cases "SignRequestMessage_new msg")
  case (Inl e)
  with assms show ?thesis
    by (auto simp add: processSignRequest_def dest: caught_threads)
next
  case (Inr sm)
  show ?thesis
  proof (cases "getKey km (sr_key_blob sm)")
    case None
    with assms Inr show ?thesis
      by (auto simp add: processSignRequest_def dest: caught_threads)
  next
    case (Some k)
    obtain c ses1 where c: "check_dest_constraints k sm ses = (c, ses1)"
      by (cases "check_dest_constraints k sm ses")
    then have s1: "m_waiting_for_confirmation ses1 = m_waiting_for_confirmation ses
       \<and> m_async_operation ses1 = m_async_operation ses
       \<and> m_confirmation_thread ses1 = m_confirmation_thread ses"
      by (rule check_dest_constraints_threads)
    from assms Inr Some c s1 show ?thesis
      by (auto simp add: processSignRequest_def failureResponse_eq send_def Let_def
          split: option.splits if_splits sum.splits dest: caught_threads)
  qed
qed

lemma processRequestIdentities_threads:
  "processRequestIdentities cfg km ses = Inr ses'
     \<Longrightarrow> m_waiting_for_confirmation ses' = m_waiting_for_confirmation ses
       \<and> m_async_operation ses' = m_async_operation ses
       \<and> m_confirmation_thread ses' = m_confirmation_thread ses"
  by (auto simp add: processRequestIdentities_def bind_Inr send_def)

lemma processExtension_threads:
  "processExtension cfg msg km ses = Inr (r, km', ses')
     \<Longrightarrow> m_waiting_for_confirmation ses' = m_waiting_for_confirmation ses
       \<and> m_async_operation ses' = m_async_operation ses
       \<and> m_confirmation_thread ses' = m_confirmation_thread ses"
  by (auto simp add: processExtension_def processExtension_try_def bind_def failureResponse_eq
      successResponse_eq
      split: sum.splits if_splits option.splits Extension.splits)

lemma processLock_threads:
  "processLock cfg msg km ses = Inr (r, km', ses')
     \<Longrightarrow> m_waiting_for_confirmation ses' = m_waiting_for_confirmation ses
       \<and> m_async_operation ses' = m_async_operation ses
       \<and> m_confirmation_thread ses' = m_confirmation_thread ses"
  by (auto simp add: processLock_def successResponse_eq
      split: sum.splits prod.splits option.splits dest: caught_threads)

lemma processUnlock_threads:
  "processUnlock cfg now msg km ses = Inr (r, km', ses')
     \<Longrightarrow> m_waiting_for_confirmation ses' = m_waiting_for_confirmation ses
       \<and> m_async_operation ses' = m_async_operation ses
       \<and> m_confirmation_thread ses' = m_confirmation_thread ses"
  by (auto simp add: processUnlock_def successResponse_eq
      split: sum.splits prod.splits option.splits dest: caught_threads)

text \<open>
  A session whose \<open>m_async_operation\<close> is off joins the thread before
  \<^verbatim>\<open>processReal\<close> returns: between requests the thread member is not joinable and the
  waiting flag is off.
\<close>

lemma processReal_synchronous:
  assumes "processReal cfg now dat km ses = Inr (r, km', ses')"
    and "\<not> m_async_operation ses" and "\<not> m_waiting_for_confirmation ses"
    and "\<not> m_confirmation_thread ses"
  shows "\<not> m_async_operation ses' \<and> \<not> m_waiting_for_confirmation ses'
         \<and> \<not> m_confirmation_thread ses'"
proof -
  from processReal_handlers [OF assms(1)] obtain msg where
       "(m_locked km \<and> msg_type msg \<noteq> SSH_AGENTC_UNLOCK \<and> ses' = failureResponse ses)
      \<or> processAddIdentity cfg now msg km ses = Inr (r, km', ses')
      \<or> processRemoveIdentity cfg msg km ses = Inr (r, km', ses')
      \<or> processRemoveAllIdentity cfg km ses = Inr (r, km', ses')
      \<or> (\<exists>r1 ses1. processSignRequest cfg msg km
                        (ses\<lparr>m_confirmation_thread := True, m_waiting_for_confirmation := True\<rparr>)
                        = Inr (r1, km', ses1)
                    \<and> ses' = ses1\<lparr>m_waiting_for_confirmation := False,
                                   m_confirmation_thread := m_async_operation ses1\<rparr>)
      \<or> (\<exists>ses1. processRequestIdentities cfg km
                        (ses\<lparr>m_key_selection_thread := True, m_waiting_for_key_selection := True\<rparr>)
                        = Inr ses1
                    \<and> ses' = ses1\<lparr>m_waiting_for_key_selection := False,
                                   m_key_selection_thread := m_async_operation ses1\<rparr>)
      \<or> processExtension cfg msg km ses = Inr (r, km', ses')
      \<or> processLock cfg msg km ses = Inr (r, km', ses')
      \<or> processUnlock cfg now msg km ses = Inr (r, km', ses')
      \<or> ses' = failureResponse ses" ..
  then show ?thesis
  proof (elim disjE exE conjE)
    assume "ses' = failureResponse ses"
    with assms(2-4) show ?thesis by (simp add: failureResponse_eq)
  next
    assume "processAddIdentity cfg now msg km ses = Inr (r, km', ses')"
    with assms(2-4) show ?thesis by (auto dest: processAddIdentity_threads)
  next
    assume "processRemoveIdentity cfg msg km ses = Inr (r, km', ses')"
    with assms(2-4) show ?thesis by (auto dest: processRemoveIdentity_threads)
  next
    assume "processRemoveAllIdentity cfg km ses = Inr (r, km', ses')"
    with assms(2-4) show ?thesis by (auto dest: processRemoveAllIdentity_threads)
  next
    fix r1 ses1
    assume "processSignRequest cfg msg km
              (ses\<lparr>m_confirmation_thread := True, m_waiting_for_confirmation := True\<rparr>)
            = Inr (r1, km', ses1)"
      and "ses' = ses1\<lparr>m_waiting_for_confirmation := False,
                        m_confirmation_thread := m_async_operation ses1\<rparr>"
    with assms(2-4) show ?thesis by (auto dest: processSignRequest_threads)
  next
    fix ses1
    assume "processRequestIdentities cfg km
              (ses\<lparr>m_key_selection_thread := True, m_waiting_for_key_selection := True\<rparr>) = Inr ses1"
      and "ses' = ses1\<lparr>m_waiting_for_key_selection := False,
                        m_key_selection_thread := m_async_operation ses1\<rparr>"
    with assms(2-4) show ?thesis by (auto dest: processRequestIdentities_threads)
  next
    assume "processExtension cfg msg km ses = Inr (r, km', ses')"
    with assms(2-4) show ?thesis by (auto dest: processExtension_threads)
  next
    assume "processLock cfg msg km ses = Inr (r, km', ses')"
    with assms(2-4) show ?thesis by (auto dest: processLock_threads)
  next
    assume "processUnlock cfg now msg km ses = Inr (r, km', ses')"
    with assms(2-4) show ?thesis by (auto dest: processUnlock_threads)
  next
    assume "ses' = failureResponse ses"
    with assms(2-4) show ?thesis by (simp add: failureResponse_eq)
  qed
qed

lemma process_synchronous:
  assumes "process cfg now dat km ses = Inr (r, km', ses')"
    and "\<not> m_async_operation ses" and "\<not> m_waiting_for_confirmation ses"
    and "\<not> m_confirmation_thread ses"
  shows "\<not> m_async_operation ses' \<and> \<not> m_waiting_for_confirmation ses'
         \<and> \<not> m_confirmation_thread ses'"
proof (cases "m_temp_buffer ses = []")
  case True
  with assms show ?thesis
    by (auto simp add: process_def split: if_splits dest: processReal_synchronous)
next
  case False
  with assms(1) obtain r1 ses1 where
    "processReal cfg now (m_temp_buffer ses @ dat) km (ses\<lparr>m_temp_buffer := m_temp_buffer ses @ dat\<rparr>)
       = Inr (r1, km', ses1)" and "ses' = ses1\<lparr>m_temp_buffer := []\<rparr>"
    by (auto simp add: process_def Let_def bind_Inr)
  with assms(2-4) show ?thesis
    by (auto dest: processReal_synchronous)
qed

lemma process_all_sticky:
  "m_binding_failed ses \<Longrightarrow> process_all cfg inputs km ses = Inr (km', ses')
     \<Longrightarrow> m_binding_failed ses'"
proof (induction inputs arbitrary: km ses)
  case Nil
  then show ?case by simp
next
  case (Cons inp rest)
  from Cons.prems(2) obtain r km1 ses1 where
    step: "process cfg (fst inp) (snd inp) km ses = Inr (r, km1, ses1)"
    and rest: "process_all cfg rest km1 ses1 = Inr (km', ses')"
    by (auto simp add: bind_Inr)
  from step Cons.prems(1) have "m_binding_failed ses1"
    by (rule process_sticky)
  then show ?case
    using rest by (rule Cons.IH)
qed

lemma process_all_synchronous:
  "\<not> m_async_operation ses \<Longrightarrow> \<not> m_waiting_for_confirmation ses \<Longrightarrow> \<not> m_confirmation_thread ses
     \<Longrightarrow> process_all cfg inputs km ses = Inr (km', ses')
     \<Longrightarrow> \<not> m_async_operation ses' \<and> \<not> m_waiting_for_confirmation ses'
         \<and> \<not> m_confirmation_thread ses'"
proof (induction inputs arbitrary: km ses)
  case Nil
  then show ?case by simp
next
  case (Cons inp rest)
  from Cons.prems(4) obtain r km1 ses1 where
    step: "process cfg (fst inp) (snd inp) km ses = Inr (r, km1, ses1)"
    and rest: "process_all cfg rest km1 ses1 = Inr (km', ses')"
    by (auto simp add: bind_Inr)
  from step Cons.prems(1-3)
  have "\<not> m_async_operation ses1 \<and> \<not> m_waiting_for_confirmation ses1
         \<and> \<not> m_confirmation_thread ses1"
    by (rule process_synchronous)
  then have a: "\<not> m_async_operation ses1" and b: "\<not> m_waiting_for_confirmation ses1"
    and c: "\<not> m_confirmation_thread ses1"
    by simp_all
  from a b c rest show ?case
    by (rule Cons.IH)
qed

text \<open>
  What holds of the claim.  An EXTENSION request whose parsing raises an exception makes
  the session set \<open>m_binding_failed\<close>, clear its bindings and reply FAILURE (the key store
  is not locked: a locked store answers at the lock gate and does not parse the request).
\<close>

lemma processReal_extension_raise:
  assumes "\<not> m_locked km" and "5 \<le> length dat" and "dat ! 4 = SSH_AGENTC_EXTENSION"
    and "ExtensionMessage_new (botan cfg) (factory cfg)
            \<lparr>msg_type = SSH_AGENTC_EXTENSION, msg_data = dat\<rparr> = Inl e"
    and "is_exception e"
  shows "processReal cfg now dat km ses =
           Inr (False, km, ses\<lparr>m_binding_failed := True, m_session_bindings := [],
                                sent := sent ses @ [[0, 0, 0, 1, SSH_AGENT_FAILURE]]\<rparr>)"
  using assms by (simp add: processReal_extension processExtension_raise)

text \<open>
  A session binding whose fields and host key parse and whose non-empty signature does
  not verify over the session id is such a request.
\<close>

lemma processReal_session_bind_bad_signature:
  assumes "\<not> m_locked km" and "5 \<le> length dat" and "dat ! 4 = SSH_AGENTC_EXTENSION"
    and "readString \<lparr>m_data = dat, m_offset = 5\<rparr> = Inr (ext_name, d)"
    and "m_message_extension_creators (factory cfg) ext_name = Some CreateSessionBind"
    and "readBlob d = Inr (hk, d1)" and "readBlob d1 = Inr (sid, d2)"
    and "readBlob d2 = Inr (sig, d3)" and "readByte d3 = Inr (fwd, d4)"
    and "readString (Deserializer_new hk) = Inr (kt, dh)" and "readBlob dh = Inr (bk, dh')"
    and "createPubKey (botan cfg) kt hk = Inr pk"
    and "sig \<noteq> []" and "verify_message (botan cfg) pk sid sig = Inr False"
  shows "processReal cfg now dat km ses =
           Inr (False, km, ses\<lparr>m_binding_failed := True, m_session_bindings := [],
                                sent := sent ses @ [[0, 0, 0, 1, SSH_AGENT_FAILURE]]\<rparr>)"
proof -
  obtain e where e: "OpenSSHSessionBind_deserialize (botan cfg) d = Inl e" "is_exception e"
    using OpenSSHSessionBind_bad_signature [OF assms(6-14)] by blast
  from assms(2,4,5) e(1) have "ExtensionMessage_new (botan cfg) (factory cfg)
            \<lparr>msg_type = SSH_AGENTC_EXTENSION, msg_data = dat\<rparr> = Inl e"
    by (rule ExtensionMessage_new_session_bind_raise)
  from processReal_extension_raise [OF assms(1-3) this e(2)] show ?thesis .
qed

text \<open>
  A sign request for a stored key that has destination constraints, on a session whose
  flag is set and whose thread member is free: the reply is FAILURE and the key store is
  as before, so nothing is signed.  The session differs in the reply and in the thread
  member.
\<close>

lemma processReal_sign_refused:
  assumes "m_binding_failed ses" and "\<not> m_waiting_for_confirmation ses"
    and "\<not> m_confirmation_thread ses"
    and "5 \<le> length dat" and "dat ! 4 = SSH_AGENTC_SIGN_REQUEST"
    and "SignRequestMessage_new \<lparr>msg_type = SSH_AGENTC_SIGN_REQUEST, msg_data = dat\<rparr> = Inr sm"
    and "getKey km (sr_key_blob sm) = Some k" and "m_dest_constraints k \<noteq> []"
  shows "\<exists>r t. processReal cfg now dat km ses =
           Inr (r, km, ses\<lparr>m_confirmation_thread := t,
                            sent := sent ses @ [[0, 0, 0, 1, SSH_AGENT_FAILURE]]\<rparr>)
           \<and> (t \<longrightarrow> m_async_operation ses)"
proof (cases "m_locked km")
  case True
  with assms have "processReal cfg now dat km ses =
      Inr (False, km, ses\<lparr>m_confirmation_thread := False,
                           sent := sent ses @ [[0, 0, 0, 1, SSH_AGENT_FAILURE]]\<rparr>)"
    by (cases ses)
       (simp add: processReal_def Message_new_eq bind_def failureResponse_eq
        SSH_AGENTC_SIGN_REQUEST_def SSH_AGENTC_UNLOCK_def)
  then show ?thesis by blast
next
  case False
  have "processSignRequest cfg \<lparr>msg_type = SSH_AGENTC_SIGN_REQUEST, msg_data = dat\<rparr> km
          (ses\<lparr>m_confirmation_thread := True, m_waiting_for_confirmation := True\<rparr>)
        = Inr (False, km,
               failureResponse (ses\<lparr>m_confirmation_thread := True,
                                    m_waiting_for_confirmation := True\<rparr>))"
    using assms by (intro processSignRequest_binding_failed) simp_all
  with False assms have "processReal cfg now dat km ses =
      Inr (True, km, ses\<lparr>m_confirmation_thread := m_async_operation ses,
                          sent := sent ses @ [[0, 0, 0, 1, SSH_AGENT_FAILURE]]\<rparr>)"
    by (cases ses) (simp add: processReal_sign_request failureResponse_eq)
  then show ?thesis by blast
qed

text \<open>
  On a session that joins its threads (\<open>m_async_operation\<close> off) that is every sign
  request, whatever the session has been fed since the flag was set.
\<close>

lemma sign_refused_synchronous:
  assumes "m_binding_failed ses" and "\<not> m_async_operation ses"
    and "\<not> m_waiting_for_confirmation ses" and "\<not> m_confirmation_thread ses"
    and "process_all cfg inputs km ses = Inr (km', ses')"
    and "5 \<le> length dat" and "dat ! 4 = SSH_AGENTC_SIGN_REQUEST"
    and "SignRequestMessage_new \<lparr>msg_type = SSH_AGENTC_SIGN_REQUEST, msg_data = dat\<rparr> = Inr sm"
    and "getKey km' (sr_key_blob sm) = Some k" and "m_dest_constraints k \<noteq> []"
  shows "\<exists>r. processReal cfg now dat km' ses' =
           Inr (r, km', ses'\<lparr>sent := sent ses' @ [[0, 0, 0, 1, SSH_AGENT_FAILURE]]\<rparr>)"
proof -
  from assms(1,5) have f: "m_binding_failed ses'"
    by (rule process_all_sticky)
  from assms(2-5) have s: "\<not> m_async_operation ses' \<and> \<not> m_waiting_for_confirmation ses'
         \<and> \<not> m_confirmation_thread ses'"
    by (rule process_all_synchronous)
  from s have s2: "\<not> m_waiting_for_confirmation ses'" and s3: "\<not> m_confirmation_thread ses'"
    by simp_all
  from processReal_sign_refused [OF f s2 s3 assms(6-10)]
  obtain r t where rt: "processReal cfg now dat km' ses' =
           Inr (r, km', ses'\<lparr>m_confirmation_thread := t,
                             sent := sent ses' @ [[0, 0, 0, 1, SSH_AGENT_FAILURE]]\<rparr>)"
      and t: "t \<longrightarrow> m_async_operation ses'"
    by blast
  from t s have "t = m_confirmation_thread ses'" by simp
  with rt have "processReal cfg now dat km' ses' =
           Inr (r, km', ses'\<lparr>sent := sent ses' @ [[0, 0, 0, 1, SSH_AGENT_FAILURE]]\<rparr>)"
    by (cases ses') simp
  then show ?thesis ..
qed

text \<open>
  The stand-in configuration, one request at a time.  The sign request parses, its data
  parse as a user authentication request, and the key it names is in the store.
\<close>

lemma toy_store_eq:
  "\<not> m_locked toy_store" "getKey toy_store [1] = Some (toy_key [1] [toy_host_constraint])"
  "m_dest_constraints (toy_key [1] [toy_host_constraint]) \<noteq> []"
  by (simp_all add: toy_store_def KeyManager_new_def getKey_def toy_key_def KeyBase_new_def
      pubBlob_def)

lemma userauth_sign_request_frame_eq:
  "5 \<le> length userauth_sign_request_frame" "\<not> length userauth_sign_request_frame < 5"
  "userauth_sign_request_frame ! 4 = SSH_AGENTC_SIGN_REQUEST"
  by (simp_all add: userauth_sign_request_frame_def SSH_AGENTC_SIGN_REQUEST_def)

lemma SignRequestMessage_new_userauth:
  "SignRequestMessage_new
      \<lparr>msg_type = SSH_AGENTC_SIGN_REQUEST, msg_data = userauth_sign_request_frame\<rparr>
     = Inr \<lparr>sr_key_blob = [1], sr_data_sign = toy_userauth_request, sr_flags = 0\<rparr>"
  by (simp add: SignRequestMessage_new_def typed_message_def Message_deserialize_def
      userauth_sign_request_frame_def toy_userauth_request_def eval_defs)



text \<open>A session binding that verifies is appended to the bindings.\<close>

lemma process_session_bind_frame:
  assumes "m_temp_buffer ses = []"
  shows "process toy_config now session_bind_frame toy_store ses
     = Inr (True, toy_store,
            ses\<lparr>m_session_bindings := m_session_bindings ses @ [\<lparr>host_key = toy_host_key, session_id = [5], forwarded = False\<rparr>],
                m_is_forwarded := m_is_forwarded ses,
                sent := sent ses @ [[0, 0, 0, 1, 6]]\<rparr>)"
  using assms toy_store_eq(1)
  by (simp add: process_def processReal_def Message_new_eq processExtension_def
      processExtension_try_def ExtensionMessage_new_def Message_deserialize_def
      createMessageExtension_def Extension_deserialize_def OpenSSHSessionBind_deserialize_def
      createPubKey_def ED25519Pub_def botan_check_def successResponse_eq
      session_bind_frame_def toy_signature_def SSH_AGENT_SUCCESS_def eval_defs
      SSH_AGENTC_UNLOCK_def SSH_AGENTC_ADD_IDENTITY_def SSH_AGENTC_ADD_IDENTITY_CONSTRAINED_def
      SSH_AGENTC_REMOVE_IDENTITY_def SSH_AGENTC_REMOVE_ALL_IDENTITIES_def
      SSH_AGENTC_REQUEST_IDENTITIES_def)

text \<open>One whose signature does not verify: FAILURE, the flag is set, the bindings are gone.\<close>

lemma process_bad_session_bind_frame:
  assumes "m_temp_buffer ses = []"
  shows "process toy_config now bad_session_bind_frame toy_store ses
     = Inr (False, toy_store,
            ses\<lparr>m_session_bindings := [], m_binding_failed := True,
                sent := sent ses @ [[0, 0, 0, 1, 5]]\<rparr>)"
  using assms toy_store_eq(1)
  by (simp add: process_def processReal_def Message_new_eq processExtension_def
      processExtension_try_def ExtensionMessage_new_def Message_deserialize_def
      createMessageExtension_def Extension_deserialize_def OpenSSHSessionBind_deserialize_def
      createPubKey_def ED25519Pub_def botan_check_def failureResponse_eq is_exception_def
      eval_defs
      SSH_AGENTC_UNLOCK_def SSH_AGENTC_ADD_IDENTITY_def SSH_AGENTC_ADD_IDENTITY_CONSTRAINED_def
      SSH_AGENTC_REMOVE_IDENTITY_def SSH_AGENTC_REMOVE_ALL_IDENTITIES_def
      SSH_AGENTC_REQUEST_IDENTITIES_def)


text \<open>The same request once the flag is set: FAILURE, whatever the bindings.\<close>

lemma process_sign_request_refused:
  assumes "m_temp_buffer ses = []" and "m_binding_failed ses"
    and "\<not> m_waiting_for_confirmation ses" and "\<not> m_confirmation_thread ses"
  shows "process toy_config now userauth_sign_request_frame toy_store ses
     = Inr (True, toy_store,
            ses\<lparr>m_waiting_for_confirmation := False,
                m_confirmation_thread := m_async_operation ses,
                sent := sent ses @ [[0, 0, 0, 1, 5]]\<rparr>)"
proof -
  have "processSignRequest toy_config
          \<lparr>msg_type = SSH_AGENTC_SIGN_REQUEST, msg_data = userauth_sign_request_frame\<rparr> toy_store
          (ses\<lparr>m_confirmation_thread := True, m_waiting_for_confirmation := True\<rparr>)
        = Inr (False, toy_store,
               failureResponse (ses\<lparr>m_confirmation_thread := True,
                                    m_waiting_for_confirmation := True\<rparr>))"
    using assms(2) toy_store_eq(2,3)
    by (intro processSignRequest_binding_failed [OF _ SignRequestMessage_new_userauth])
       simp_all
  with assms toy_store_eq(1) show ?thesis
    by (cases ses)
       (simp add: process_def userauth_sign_request_frame_eq processReal_sign_request
        failureResponse_eq SSH_AGENT_FAILURE_def)
qed


text \<open>
  A session that joins its threads, bound, then sent the binding that does not verify,
  bound again, and sent the sign request twice: both are refused.
\<close>

lemma sign_refused_synchronous_example:
  "process_all toy_config
        [(0, session_bind_frame), (0, bad_session_bind_frame), (0, session_bind_frame),
         (0, userauth_sign_request_frame), (0, userauth_sign_request_frame)]
        toy_store (Session_new\<lparr>m_async_operation := False\<rparr>)
     = Inr (toy_store,
            Session_new\<lparr>m_session_bindings := [\<lparr>host_key = toy_host_key, session_id = [5], forwarded = False\<rparr>],
                         m_async_operation := False, m_binding_failed := True,
                         sent := [[0, 0, 0, 1, 6], [0, 0, 0, 1, 5], [0, 0, 0, 1, 6],
                                  [0, 0, 0, 1, 5], [0, 0, 0, 1, 5]]\<rparr>)"
  by (simp add: bind_def process_session_bind_frame process_bad_session_bind_frame
      process_sign_request_refused Session_new_def)


subsection \<open>Extensions that are not session bindings\<close>

text \<open>
  An extension the embedder has registered, does not consume, and that is not the
  session binding: FAILURE, and the session keeps its bindings and its flag.
\<close>

lemma processReal_unsupported_extension:
  assumes "\<not> m_locked km" and "5 \<le> length dat" and "dat ! 4 = SSH_AGENTC_EXTENSION"
    and "ExtensionMessage_new (botan cfg) (factory cfg)
           \<lparr>msg_type = SSH_AGENTC_EXTENSION, msg_data = dat\<rparr> = Inr ext_msg"
    and "\<not> processExtensionMessage (embedder cfg) ext_msg"
    and "m_extension_name ext_msg \<noteq> str ''session-bind@openssh.com''"
  shows "processReal cfg now dat km ses =
           Inr (False, km, ses\<lparr>sent := sent ses @ [[0, 0, 0, 1, SSH_AGENT_FAILURE]]\<rparr>)"
  using assms
  by (simp add: processReal_extension processExtension_def processExtension_try_def bind_def
      failureResponse_eq)

text \<open>
  An extension name that is not in the registry: \<^verbatim>\<open>createMessageExtension\<close> throws
  while the message is built, before the embedder is asked, and the handler treats it as
  a failed binding.
\<close>

lemma processReal_unknown_extension:
  assumes "\<not> m_locked km" and "5 \<le> length dat" and "dat ! 4 = SSH_AGENTC_EXTENSION"
    and "readString \<lparr>m_data = dat, m_offset = 5\<rparr> = Inr (ext_name, d)"
    and "m_message_extension_creators (factory cfg) ext_name = None"
  shows "processReal cfg now dat km ses =
           Inr (False, km, ses\<lparr>m_binding_failed := True, m_session_bindings := [],
                                sent := sent ses @ [[0, 0, 0, 1, SSH_AGENT_FAILURE]]\<rparr>)"
proof -
  have "ExtensionMessage_new (botan cfg) (factory cfg)
          \<lparr>msg_type = SSH_AGENTC_EXTENSION, msg_data = dat\<rparr>
        = Inl (RuntimeError ''ExtensionFactory: unknown message extension'')"
    using assms by (intro ExtensionMessage_new_unknown [of dat ext_name d]) simp_all
  with assms show ?thesis
    by (simp add: processReal_extension processExtension_raise is_exception_def)
qed

text \<open>
  C9.  The EXTENSION request named \<open>foo\<close>, with the registry as the library fills it and
  an embedder that consumes nothing, on a session that holds one binding and whose
  \<open>m_binding_failed\<close> is not set: the reply is FAILURE, but the flag is set and the binding
  is gone.
\<close>

theorem unknown_extension_poisons_session:
  "processReal toy_config 0 unknown_extension_frame (KeyManager_new 0)
     (Session_new\<lparr>m_session_bindings := [\<lparr>host_key = [9], session_id = [5], forwarded = False\<rparr>]\<rparr>)
   = Inr (False, KeyManager_new 0,
          Session_new\<lparr>m_binding_failed := True, m_session_bindings := [],
                       sent := [[0, 0, 0, 1, 5]]\<rparr>)"
  by (simp add: processReal_def Message_new_eq processExtension_def processExtension_try_def
      ExtensionMessage_new_def Message_deserialize_def createMessageExtension_def
      is_exception_def failureResponse_eq KeyManager_new_def Session_new_def eval_defs
      SSH_AGENTC_UNLOCK_def SSH_AGENTC_ADD_IDENTITY_def SSH_AGENTC_ADD_IDENTITY_CONSTRAINED_def
      SSH_AGENTC_REMOVE_IDENTITY_def SSH_AGENTC_REMOVE_ALL_IDENTITIES_def
      SSH_AGENTC_REQUEST_IDENTITIES_def)

subsection \<open>Unlock and its back-off\<close>

lemma floor_pow: "\<lfloor>(1.8 :: real) ^ n\<rfloor> = 9 ^ n div 5 ^ n"
proof -
  have "(1.8 :: real) ^ n = of_int (9 ^ n) / of_int (5 ^ n)"
    by (simp add: power_divide [symmetric])
  then show ?thesis
    by (simp only: floor_divide_of_int_eq)
qed

lemma wait_time_in_range:
  assumes "n \<le> 36"
  shows "wait_time n = Some \<lfloor>(1.8 :: real) ^ n\<rfloor>"
proof -
  have "(1.8 :: real) ^ n \<le> 1.8 ^ 36"
    using assms by (intro power_increasing) simp_all
  then have "\<lfloor>(1.8 :: real) ^ n\<rfloor> \<le> \<lfloor>(1.8 :: real) ^ 36\<rfloor>"
    by (rule floor_mono)
  also have "\<dots> = 1548139828"
    by (simp only: floor_pow) simp
  finally have "(9 :: int) ^ n div 5 ^ n \<le> 1548139828"
    by (simp only: floor_pow)
  then have "(9 :: int) ^ n div 5 ^ n \<le> 2147483647"
    by linarith
  then show ?thesis
    unfolding wait_time_def Let_def floor_pow by simp
qed

lemma wait_time_37: "wait_time 37 = None"
  by (simp add: wait_time_def)

lemma unlock_throttled:
  assumes "m_locked km" and "m_lock_provider km = Some lp" and "now < m_locked_until km"
  shows "unlock bt now passphrase km =
           (Some (TooManyAttempts (duration_cast_seconds (m_locked_until km - now))),
            km\<lparr>m_failed_attempts := m_failed_attempts km + 1\<rparr>)"
  using assms by (simp add: unlock_def)

lemma unlock_failure:
  assumes "m_locked km" and "m_lock_provider km = Some lp" and "\<not> now < m_locked_until km"
    and "unlock_try bt passphrase lp (m_keys km) = (Some e, ks)"
  shows "m_failed_attempts km + 1 \<le> 2 \<Longrightarrow>
           unlock bt now passphrase km =
             (Some e, km\<lparr>m_keys := ks, m_failed_attempts := m_failed_attempts km + 1\<rparr>)"
    and "2 < m_failed_attempts km + 1 \<Longrightarrow> m_failed_attempts km + 1 \<le> 36 \<Longrightarrow>
           unlock bt now passphrase km =
             (Some e, km\<lparr>m_keys := ks, m_failed_attempts := m_failed_attempts km + 1,
                          m_locked_until := now + seconds \<lfloor>(1.8 :: real) ^ (m_failed_attempts km + 1)\<rfloor>\<rparr>)"
    and "36 < m_failed_attempts km + 1 \<Longrightarrow>
           unlock bt now passphrase km =
             (Some Undefined, km\<lparr>m_keys := ks, m_failed_attempts := m_failed_attempts km + 1\<rparr>)"
proof -
  show "m_failed_attempts km + 1 \<le> 2 \<Longrightarrow>
           unlock bt now passphrase km =
             (Some e, km\<lparr>m_keys := ks, m_failed_attempts := m_failed_attempts km + 1\<rparr>)"
    using assms by (simp add: unlock_def Let_def)
  show "2 < m_failed_attempts km + 1 \<Longrightarrow> m_failed_attempts km + 1 \<le> 36 \<Longrightarrow>
           unlock bt now passphrase km =
             (Some e, km\<lparr>m_keys := ks, m_failed_attempts := m_failed_attempts km + 1,
                          m_locked_until := now + seconds \<lfloor>(1.8 :: real) ^ (m_failed_attempts km + 1)\<rfloor>\<rparr>)"
    using assms wait_time_in_range [of "m_failed_attempts km + 1"]
    by (simp add: unlock_def Let_def)
  show "36 < m_failed_attempts km + 1 \<Longrightarrow>
           unlock bt now passphrase km =
             (Some Undefined, km\<lparr>m_keys := ks, m_failed_attempts := m_failed_attempts km + 1\<rparr>)"
  proof -
    assume a: "36 < m_failed_attempts km + 1"
    then have "(1.8 :: real) ^ 37 \<le> 1.8 ^ (m_failed_attempts km + 1)"
      by (intro power_increasing) simp_all
    then have "\<lfloor>(1.8 :: real) ^ 37\<rfloor> \<le> \<lfloor>(1.8 :: real) ^ (m_failed_attempts km + 1)\<rfloor>"
      by (rule floor_mono)
    moreover have "\<lfloor>(1.8 :: real) ^ 37\<rfloor> = 2786651691"
      by (simp only: floor_pow) simp
    ultimately have "2786651691 \<le> \<lfloor>(1.8 :: real) ^ (m_failed_attempts km + 1)\<rfloor>"
      by linarith
    then have "2786651691 \<le> (9 :: int) ^ (m_failed_attempts km + 1) div 5 ^ (m_failed_attempts km + 1)"
      by (simp only: floor_pow)
    then have "\<not> (9 :: int) ^ (m_failed_attempts km + 1) div 5 ^ (m_failed_attempts km + 1) \<le> 2147483647"
      by linarith
    then have "wait_time (m_failed_attempts km + 1) = None"
      by (simp add: wait_time_def Let_def)
    with a assms show ?thesis
      by (simp add: unlock_def Let_def)
  qed
qed

lemma unlock_success:
  assumes "m_locked km" and "m_lock_provider km = Some lp" and "\<not> now < m_locked_until km"
    and "unlock_try bt passphrase lp (m_keys km) = (None, ks)"
  shows "unlock bt now passphrase km =
           (None, km\<lparr>m_keys := ks, observed := observed km @ [Unlocked], m_locked := False,
                       m_failed_attempts := 0\<rparr>)"
  using assms by (simp add: unlock_def emit_def)

lemma unlock_run_throttled:
  assumes "m_locked km" and "m_lock_provider km = Some lp" and "now < m_locked_until km"
  shows "unlock_run bt passphrase (replicate n now) km =
           km\<lparr>m_failed_attempts := m_failed_attempts km + n\<rparr>"
  using assms
proof (induction n arbitrary: km)
  case 0
  then show ?case by (simp add: unlock_run_def)
next
  case (Suc n)
  have step: "snd (unlock bt now passphrase km) = km\<lparr>m_failed_attempts := m_failed_attempts km + 1\<rparr>"
    using Suc.prems by (simp add: unlock_throttled)
  have "unlock_run bt passphrase (replicate (Suc n) now) km =
          unlock_run bt passphrase (replicate n now) (km\<lparr>m_failed_attempts := m_failed_attempts km + 1\<rparr>)"
    using step by (simp add: unlock_run_def)
  also have "\<dots> = (km\<lparr>m_failed_attempts := m_failed_attempts km + 1\<rparr>)
                      \<lparr>m_failed_attempts := m_failed_attempts (km\<lparr>m_failed_attempts := m_failed_attempts km + 1\<rparr>) + n\<rparr>"
    using Suc.prems by (intro Suc.IH) simp_all
  finally show ?case by simp
qed

lemma unlock_run_append:
  "unlock_run bt passphrase (ts @ ts') km = unlock_run bt passphrase ts' (unlock_run bt passphrase ts km)"
  by (simp add: unlock_run_def)

lemma three_wrong_attempts:
  "unlock_run toy_botan (str ''bad'') (replicate 3 0) locked_store =
     locked_store\<lparr>m_failed_attempts := 3, m_locked_until := seconds 5\<rparr>"
  by (simp add: unlock_run_def numeral_3_eq_3 unlock_def unlock_try_def locked_store_def
      KeyManager_new_def toy_botan_def str_def seconds_def wait_time_def Let_def)

text \<open>
  C4.  A locked store whose provider knows the passphrase \<open>pw\<close>.  Three wrong attempts
  at time 0 set \<open>locked_until\<close> to 5 seconds; 33 further attempts inside that window are
  each counted and throttled, which brings \<open>failed_attempts\<close> to 36.  The next wrong
  attempt after the window makes it 37, and \<open>\<lfloor>1.8\<^sup>3\<^sup>7\<rfloor> = 2786651691\<close> does not fit the
  \<^verbatim>\<open>int\<close> it is converted to: the conversion is undefined, and \<open>locked_until\<close> is not
  set to \<open>now + \<lfloor>1.8\<^sup>3\<^sup>7\<rfloor>\<close> seconds.  Up to 36 failed attempts the claim holds
  (\<open>unlock_throttled\<close>, \<open>unlock_failure\<close>, \<open>unlock_success\<close>).
\<close>

theorem unlock_backoff_overflow:
  "unlock_run toy_botan (str ''bad'') (replicate 3 0 @ replicate 33 (seconds 1)) locked_store
     = locked_store\<lparr>m_failed_attempts := 36, m_locked_until := seconds 5\<rparr>
   \<and> unlock toy_botan (seconds 6) (str ''bad'')
        (locked_store\<lparr>m_failed_attempts := 36, m_locked_until := seconds 5\<rparr>)
       = (Some Undefined, locked_store\<lparr>m_failed_attempts := 37, m_locked_until := seconds 5\<rparr>)
   \<and> \<lfloor>(1.8 :: real) ^ 37\<rfloor> = 2786651691
   \<and> (2147483647 :: int) < 2786651691"
proof -
  have "unlock_run toy_botan (str ''bad'') (replicate 33 (seconds 1))
          (locked_store\<lparr>m_failed_attempts := 3, m_locked_until := seconds 5\<rparr>)
        = locked_store\<lparr>m_failed_attempts := 36, m_locked_until := seconds 5\<rparr>"
    using unlock_run_throttled [of "locked_store\<lparr>m_failed_attempts := 3, m_locked_until := seconds 5\<rparr>"
        "\<lparr>m_hash = str ''pw''\<rparr>" "seconds 1" toy_botan "str ''bad''" 33]
    by (simp add: locked_store_def seconds_def)
  then have run: "unlock_run toy_botan (str ''bad'') (replicate 3 0 @ replicate 33 (seconds 1)) locked_store
     = locked_store\<lparr>m_failed_attempts := 36, m_locked_until := seconds 5\<rparr>"
    by (simp only: unlock_run_append three_wrong_attempts)
  have last: "unlock toy_botan (seconds 6) (str ''bad'')
        (locked_store\<lparr>m_failed_attempts := 36, m_locked_until := seconds 5\<rparr>)
       = (Some Undefined, locked_store\<lparr>m_failed_attempts := 37, m_locked_until := seconds 5\<rparr>)"
    by (simp add: unlock_def unlock_try_def locked_store_def KeyManager_new_def toy_botan_def
        str_def seconds_def wait_time_def Let_def)
  have fl: "\<lfloor>(1.8 :: real) ^ 37\<rfloor> = 2786651691"
    by (simp only: floor_pow) simp
  from run last fl show ?thesis by simp
qed

subsection \<open>Distinct public blobs in the key store\<close>

text \<open>
  \<^verbatim>\<open>addKey\<close> keeps the public blobs of the store distinct when the key it creates has
  the blob \<^verbatim>\<open>extractPubKey\<close> computed, which is so for the Ed25519, Ed448 and RSA keys;
  the other operations remove keys or leave their blobs alone.
\<close>

lemma erase_first_absent:
  "distinct (map pubBlob ks) \<Longrightarrow> blob \<notin> pubBlob ` set (erase_first blob ks)"
  by (induction ks) auto

lemma erase_first_subset: "set (erase_first blob ks) \<subseteq> set ks"
  by (induction ks) auto

lemma erase_first_distinct:
  "distinct (map pubBlob ks) \<Longrightarrow> distinct (map pubBlob (erase_first blob ks))"
proof (induction ks)
  case Nil
  then show ?case by simp
next
  case (Cons k ks)
  then show ?case
    using erase_first_subset [of blob ks] by auto
qed

lemma addKey_distinct:
  assumes "distinct (map pubBlob (m_keys km))"
    and "addKey bt ty blob comment km = (Inr k, km')"
    and "extractPubKey ty blob = Inr (pubBlob k)"
  shows "distinct (map pubBlob (m_keys km'))"
proof -
  from assms(2,3) have km': "m_keys km' = erase_first (pubBlob k) (m_keys km) @ [k]"
    by (auto simp add: addKey_def Let_def split: sum.splits)
  show ?thesis
    using erase_first_distinct [OF assms(1), of "pubBlob k"]
      erase_first_absent [OF assms(1), of "pubBlob k"]
    by (auto simp add: km')
qed

lemma createKey_eddsa_blob:
  assumes "ty = str ''ssh-ed25519'' \<or> ty = str ''ssh-ed448''"
    and "createKey bt ty blob comment = Inr k"
  shows "extractPubKey ty blob = Inr (pubBlob k)"
  using assms
  by (auto simp add: createKey_def extractPubKey_def Ed25519Key_def Ed448Key_def
      EDDSA_extractPub_def ED25519Pub_def ED448Pub_def KeyBase_new_def pubBlob_def bind_Inr
      str_def split: if_splits)

lemma createKey_rsa_blob:
  assumes "createKey bt (str ''ssh-rsa'') blob comment = Inr k"
  shows "extractPubKey (str ''ssh-rsa'') blob = Inr (pubBlob k)"
  using assms
  by (auto simp add: createKey_def extractPubKey_def RsaKey_def RsaKey_extractPub_def
      RSAPub_def KeyBase_new_def pubBlob_def bind_Inr str_def split: if_splits)


lemma removeKey_distinct:
  "distinct (map pubBlob (m_keys km)) \<Longrightarrow> distinct (map pubBlob (m_keys (removeKey bt blob km)))"
  by (auto simp add: removeKey_def emit_def erase_first_distinct split: option.splits)

lemma removeAllKeys_distinct: "distinct (map pubBlob (m_keys (removeAllKeys bt km)))"
  by (simp add: removeAllKeys_def)

lemma cleanup_loop_filter: "fst (cleanup_loop bt now ks) = filter (\<lambda>k. \<not> expired now k) ks"
  by (induction ks) (auto split: prod.splits)

lemma cleanupExpiredKeys_distinct:
  "distinct (map pubBlob (m_keys km))
     \<Longrightarrow> distinct (map pubBlob (m_keys (cleanupExpiredKeys bt now km)))"
  using cleanup_loop_filter [of bt now "m_keys km"]
  by (auto simp add: cleanupExpiredKeys_def distinct_map_filter split: prod.splits)

lemma lock_keys_blobs: "map pubBlob (snd (lock_keys bt passphrase ks)) = map pubBlob ks"
  by (induction ks) (auto simp add: key_lock_def pubBlob_def split: sum.splits prod.splits option.splits)

lemma unlock_keys_blobs: "map pubBlob (snd (unlock_keys bt passphrase ks)) = map pubBlob ks"
  by (induction ks)
     (auto simp add: key_unlock_def pubBlob_def bind_def split: sum.splits prod.splits option.splits)

lemma lock_blobs: "map pubBlob (m_keys (snd (lock bt passphrase km))) = map pubBlob (m_keys km)"
  using lock_keys_blobs [of bt passphrase "m_keys km"]
  by (auto simp add: lock_def emit_def Let_def split: option.splits prod.splits)

lemma unlock_blobs: "map pubBlob (m_keys (snd (unlock bt now passphrase km))) = map pubBlob (m_keys km)"
  using unlock_keys_blobs [of bt passphrase "m_keys km"]
  by (auto simp add: unlock_def unlock_try_def emit_def Let_def split: option.splits prod.splits if_splits)

text \<open>
  C5.  A key added under the type \<open>ecdsa-sha2-nistp256\<close> whose blob names the curve
  \<open>nistp384\<close>: \<^verbatim>\<open>extractPub\<close> names the type after the curve, the constructor after
  the registration, so the blob searched for is not the blob stored.  Adding the key a
  second time removes nothing, and the store holds two keys with the same public blob.
\<close>

theorem addKey_duplicate_blob:
  "extractPubKey (str ''ecdsa-sha2-nistp256'') nistp384_blob
     = ecdsa_pub_blob (str ''ecdsa-sha2-nistp384'') (str ''nistp384'') [4, 1, 2]
   \<and> map (\<lambda>k. Inr (pubBlob k))
        (m_keys (snd (addKey toy_botan (str ''ecdsa-sha2-nistp256'') nistp384_blob (str ''b'')
           (snd (addKey toy_botan (str ''ecdsa-sha2-nistp256'') nistp384_blob (str ''a'')
              (KeyManager_new 0))))))
     = [ecdsa_pub_blob (str ''ecdsa-sha2-nistp256'') (str ''nistp384'') [4, 1, 2],
        ecdsa_pub_blob (str ''ecdsa-sha2-nistp256'') (str ''nistp384'') [4, 1, 2]]
   \<and> \<not> distinct (map pubBlob
        (m_keys (snd (addKey toy_botan (str ''ecdsa-sha2-nistp256'') nistp384_blob (str ''b'')
           (snd (addKey toy_botan (str ''ecdsa-sha2-nistp256'') nistp384_blob (str ''a'')
              (KeyManager_new 0)))))))"
  by (simp add: addKey_def extractPubKey_def createKey_def is_ecdsa_type_def
      ECDSAKey_extractPub_def ECDSAKey_def ECDSAPub_def ecdsa_pub_blob_def botan_curve_name_def
      ecdsa_scalar_size_def botan_check_def nistp384_blob_def writeString_def writeBlob_def
      writeBE32_def be32_def Serializer_new_def data_def MAX_SERIALIZED_SIZE_def
      KeyBase_new_def pubBlob_def KeyManager_new_def Let_def eval_defs)

end
